theory Spec2Isabelle
  imports Main
begin

section \<open>Echo: the study execution pipeline\<close>

text \<open>
  The components embedded here are the Python listings of LEARNING_GUIDE_PHASE2.md:
  the tasks component (api/src/components/tasks.py), the participants component
  (api/src/components/participants.py), the AI service (api/src/services/ai_service.py)
  and the route in front of the study synthesis. Exceptions are values of type \<open>error\<close>; a function
  that touches the database returns its result together with the database after the
  call, so that what a failed call leaves behind can be stated. The clock
  (\<open>datetime.now()\<close>) and the identifiers generated by the routes (\<open>uuid.uuid4()\<close>)
  are arguments.
\<close>

subsection \<open>Values\<close>

type_synonym uuid = string
type_synonym timestamp = string

text \<open>\<open>raise Exception(msg)\<close>, \<open>raise ValueError(msg)\<close>, and the primary-key violation
  the database answers an insert of an existing id with.\<close>

datatype error = Exception string | ValueError string | IntegrityError string

text \<open>JSON values: the request bodies and the \<open>JSONB\<close> columns.\<close>

datatype json =
    JNull
  | JBool bool
  | JNum int
  | JStr string
  | JArr "json list"
  | JObj "(string \<times> json) list"

text \<open>Python's truth value of an optional string, \<open>not d.get(key)\<close>: a missing key
  and the empty string are both false.\<close>

definition truthy :: "string option \<Rightarrow> bool" where
  "truthy v = (case v of None \<Rightarrow> False | Some s \<Rightarrow> s \<noteq> [])"

subsection \<open>Tables\<close>

text \<open>The rows of \<open>tasks\<close> and \<open>participants\<close> (LEARNING_GUIDE.md, step 2.4; the
  \<open>Task\<close> model of step 2.1.2). A nullable column is an option.\<close>

record task =
  t_id :: uuid
  t_study_id :: uuid
  t_type :: string
  t_title :: string
  t_instructions :: "string option"
  t_order_index :: int
  t_created_at :: timestamp
  t_updated_at :: timestamp

record participant =
  p_id :: uuid
  p_study_id :: uuid
  p_contact :: string
  p_demographics :: "json option"
  p_status :: string
  p_invited_at :: "timestamp option"
  p_started_at :: "timestamp option"
  p_completed_at :: "timestamp option"
  p_created_at :: timestamp
  p_updated_at :: timestamp

text \<open>The columns of \<open>studies\<close> and \<open>responses\<close> that the response store reads
  and writes (LEARNING_GUIDE.md, step 2.4).\<close>

record study =
  s_id :: uuid
  s_status :: string

record response =
  r_id :: uuid
  r_participant_id :: uuid
  r_task_id :: uuid
  r_response_data :: json
  r_submitted_at :: "timestamp option"
  r_created_at :: "timestamp option"

record db =
  studies :: "study list"
  tasks :: "task list"
  participants :: "participant list"
  responses :: "response list"

subsection \<open>The repository\<close>

text \<open>
  Modelled from the spec: the database connector \<open>db\<close>
  (src.utils.managers.database_manager.DatabaseManager) is not among the sources. The
  spec's contract (section 6) is \<open>create(table, record) \<rightarrow> id\<close>,
  \<open>read(table, filter) \<rightarrow> records[]\<close>, \<open>update(table, filter, patch) \<rightarrow> affectedId\<close>
  with filters that are exact-match conjunctions. A table is the list of its rows in
  insertion order; a filter is the predicate of its conjunction. \<open>db_create\<close> keeps the
  \<open>PRIMARY KEY\<close> of the schema: an id already stored is refused. \<open>db_update\<close> patches
  the rows the filter selects and answers the id of the first of them; when the filter
  selects no row the table is unchanged and there is no id to answer (\<open>None\<close>), which
  is what an SQL \<open>UPDATE\<close> does, the contract being silent on that case.
\<close>

definition db_read :: "('r \<Rightarrow> bool) \<Rightarrow> 'r list \<Rightarrow> 'r list" where
  "db_read query tbl = filter query tbl"

definition db_create :: "('r \<Rightarrow> uuid) \<Rightarrow> 'r \<Rightarrow> 'r list \<Rightarrow> (error + uuid) \<times> 'r list" where
  "db_create key row tbl =
     (if key row \<in> set (map key tbl)
      then (Inl (IntegrityError ''duplicate key value violates unique constraint''), tbl)
      else (Inr (key row), tbl @ [row]))"

definition db_update ::
  "('r \<Rightarrow> uuid) \<Rightarrow> ('r \<Rightarrow> bool) \<Rightarrow> ('r \<Rightarrow> 'r) \<Rightarrow> 'r list \<Rightarrow> uuid option \<times> 'r list" where
  "db_update key query patch tbl =
     (map_option key (find query tbl), map (\<lambda>r. if query r then patch r else r) tbl)"

subsection \<open>Tasks component\<close>

text \<open>The \<open>task\<close> dictionary of a create request. The route stores an \<open>id\<close> in it
  before it calls \<open>create_task\<close>; the other keys may be missing. \<open>order_index\<close>, when
  present, is an integer, as the column is.\<close>

record task_data =
  d_id :: uuid
  d_study_id :: "uuid option"
  d_type :: "string option"
  d_title :: "string option"
  d_instructions :: "string option"
  d_order_index :: "int option"

text \<open>A query dictionary over tasks: the keys \<open>id\<close>, \<open>study_id\<close> and \<open>type\<close>, each
  optional, all of those present must match.\<close>

record task_query =
  q_id :: "uuid option"
  q_study_id :: "uuid option"
  q_type :: "string option"

definition task_matches :: "task_query \<Rightarrow> task \<Rightarrow> bool" where
  "task_matches q t =
     ((q_id q = None \<or> q_id q = Some (t_id t)) \<and>
      (q_study_id q = None \<or> q_study_id q = Some (t_study_id t)) \<and>
      (q_type q = None \<or> q_type q = Some (t_type t)))"

definition valid_types :: "string list" where
  "valid_types =
     [''camera'', ''discussion'', ''gallery'', ''collage'', ''classification'', ''fill_blanks'']"

text \<open>\<open>max([t.get('order_index', 0) for t in existing_tasks] + [0])\<close>\<close>

definition max_order :: "task list \<Rightarrow> int" where
  "max_order existing_tasks = Max (set (map t_order_index existing_tasks @ [0]))"

definition create_task :: "timestamp \<Rightarrow> task_data option \<Rightarrow> db \<Rightarrow> (error + uuid) \<times> db" where
  "create_task current_time task db =
     (case task of
        None \<Rightarrow> (Inl (Exception ''Task data is required''), db)
      | Some d \<Rightarrow>
          if \<not> truthy (d_study_id d) then (Inl (Exception ''study_id is required''), db)
          else if \<not> truthy (d_type d) then (Inl (Exception ''type is required''), db)
          else if \<not> truthy (d_title d) then (Inl (Exception ''title is required''), db)
          else
            (case (d_study_id d, d_type d, d_title d) of
               (Some study, Some type, Some title) \<Rightarrow>
                 if type \<notin> set valid_types
                 then (Inl (Exception ''Invalid task type. Must be one of: camera, discussion, gallery, collage, classification, fill_blanks''), db)
                 else
                   let order =
                         (case d_order_index d of
                            Some i \<Rightarrow> i
                          | None \<Rightarrow>
                              max_order
                                (db_read
                                   (task_matches
                                      \<lparr>q_id = None, q_study_id = Some study, q_type = None\<rparr>)
                                   (tasks db)) + 1);
                       row = \<lparr>t_id = d_id d, t_study_id = study, t_type = type,
                              t_title = title, t_instructions = d_instructions d,
                              t_order_index = order, t_created_at = current_time,
                              t_updated_at = current_time\<rparr>;
                       (task_id, tbl) = db_create t_id row (tasks db)
                   in (task_id, db\<lparr>tasks := tbl\<rparr>)
             | _ \<Rightarrow> (Inl (Exception ''study_id is required''), db)))"

text \<open>\<open>read_tasks\<close>: the rows the query selects, sorted by \<open>order_index\<close>. Python's sort
  is stable, as \<open>sort_key\<close> is.\<close>

definition read_tasks :: "task_query option \<Rightarrow> db \<Rightarrow> task list" where
  "read_tasks query db =
     (let query = (case query of
                     None \<Rightarrow> \<lparr>q_id = None, q_study_id = None, q_type = None\<rparr>
                   | Some q \<Rightarrow> q)
      in sort_key t_order_index (db_read (task_matches query) (tasks db)))"

text \<open>The loop of \<open>reorder_tasks\<close>, \<open>for index, task_id in enumerate(task_ids, start=1)\<close>:
  one update per listed id, filtered by id and study. The clock is read once per
  iteration; \<open>clock index\<close> is the time of the iteration that writes \<open>index\<close>.\<close>

fun reorder_loop :: "(nat \<Rightarrow> timestamp) \<Rightarrow> uuid \<Rightarrow> nat \<Rightarrow> uuid list \<Rightarrow> task list \<Rightarrow> task list" where
  "reorder_loop clock study_id index [] tbl = tbl"
| "reorder_loop clock study_id index (task_id # rest) tbl =
     reorder_loop clock study_id (Suc index) rest
       (snd (db_update t_id
               (task_matches \<lparr>q_id = Some task_id, q_study_id = Some study_id, q_type = None\<rparr>)
               (\<lambda>t. t\<lparr>t_order_index := int index, t_updated_at := clock index\<rparr>)
               tbl))"

definition reorder_tasks ::
  "(nat \<Rightarrow> timestamp) \<Rightarrow> uuid \<Rightarrow> uuid list \<Rightarrow> db \<Rightarrow> (error + string) \<times> db" where
  "reorder_tasks clock study_id task_ids db =
     (if study_id = [] then (Inl (Exception ''Study ID is required''), db)
      else if task_ids = [] then (Inl (Exception ''Task IDs list is required''), db)
      else (Inr ''Tasks reordered successfully'',
            db\<lparr>tasks := reorder_loop clock study_id 1 task_ids (tasks db)\<rparr>))"

subsection \<open>Participants component\<close>

text \<open>The \<open>participant\<close> dictionary of a create request. A timestamp key may be
  missing (\<open>None\<close>), or present with a value or with \<open>null\<close> (\<open>Some v\<close>).\<close>

record participant_data =
  pd_id :: uuid
  pd_study_id :: "uuid option"
  pd_contact :: "string option"
  pd_demographics :: "json option"
  pd_status :: "string option"
  pd_invited_at :: "timestamp option option"
  pd_started_at :: "timestamp option option"
  pd_completed_at :: "timestamp option option"

definition create_participant ::
  "timestamp \<Rightarrow> participant_data option \<Rightarrow> db \<Rightarrow> (error + uuid) \<times> db" where
  "create_participant current_time participant db =
     (case participant of
        None \<Rightarrow> (Inl (Exception ''Participant data is required''), db)
      | Some d \<Rightarrow>
          if \<not> truthy (pd_study_id d) then (Inl (Exception ''study_id is required''), db)
          else if \<not> truthy (pd_contact d) then (Inl (Exception ''contact is required''), db)
          else
            (case (pd_study_id d, pd_contact d) of
               (Some study, Some contact) \<Rightarrow>
                 let row = \<lparr>p_id = pd_id d, p_study_id = study, p_contact = contact,
                            p_demographics = pd_demographics d,
                            p_status = (case pd_status d of None \<Rightarrow> ''invited'' | Some s \<Rightarrow> s),
                            p_invited_at =
                              (case pd_invited_at d of None \<Rightarrow> Some current_time | Some v \<Rightarrow> v),
                            p_started_at = (case pd_started_at d of None \<Rightarrow> None | Some v \<Rightarrow> v),
                            p_completed_at =
                              (case pd_completed_at d of None \<Rightarrow> None | Some v \<Rightarrow> v),
                            p_created_at = current_time, p_updated_at = current_time\<rparr>;
                     (participant_id, tbl) = db_create p_id row (participants db)
                 in (participant_id, db\<lparr>participants := tbl\<rparr>)
             | _ \<Rightarrow> (Inl (Exception ''study_id is required''), db)))"

text \<open>The \<open>data\<close> dictionary of an update: the keys it may carry. The empty dictionary
  has every key missing.\<close>

record participant_patch =
  u_contact :: "string option"
  u_demographics :: "json option"
  u_status :: "string option"
  u_invited_at :: "timestamp option option"
  u_started_at :: "timestamp option option"
  u_completed_at :: "timestamp option option"
  u_updated_at :: "timestamp option"

definition empty_patch :: participant_patch where
  "empty_patch =
     \<lparr>u_contact = None, u_demographics = None, u_status = None, u_invited_at = None,
      u_started_at = None, u_completed_at = None, u_updated_at = None\<rparr>"

text \<open>What the database does with the dictionary: every key present overwrites its
  column.\<close>

definition apply_patch :: "participant_patch \<Rightarrow> participant \<Rightarrow> participant" where
  "apply_patch data p =
     p\<lparr>p_contact := (case u_contact data of None \<Rightarrow> p_contact p | Some v \<Rightarrow> v),
       p_demographics :=
         (case u_demographics data of None \<Rightarrow> p_demographics p | Some v \<Rightarrow> Some v),
       p_status := (case u_status data of None \<Rightarrow> p_status p | Some v \<Rightarrow> v),
       p_invited_at := (case u_invited_at data of None \<Rightarrow> p_invited_at p | Some v \<Rightarrow> v),
       p_started_at := (case u_started_at data of None \<Rightarrow> p_started_at p | Some v \<Rightarrow> v),
       p_completed_at :=
         (case u_completed_at data of None \<Rightarrow> p_completed_at p | Some v \<Rightarrow> v),
       p_updated_at := (case u_updated_at data of None \<Rightarrow> p_updated_at p | Some v \<Rightarrow> v)\<rparr>"

text \<open>\<open>update_participant\<close> reads the clock twice: \<open>updated_time\<close> for \<open>updated_at\<close>,
  \<open>current_time\<close> for the status timestamps.\<close>

definition stamp_status :: "timestamp \<Rightarrow> participant_patch \<Rightarrow> participant_patch" where
  "stamp_status current_time data =
     (case u_status data of
        None \<Rightarrow> data
      | Some status \<Rightarrow>
          if status = ''started'' \<and> u_started_at data = None
          then data\<lparr>u_started_at := Some (Some current_time)\<rparr>
          else if status = ''completed'' \<and> u_completed_at data = None
          then data\<lparr>u_completed_at := Some (Some current_time)\<rparr>
          else data)"

definition update_participant ::
  "timestamp \<Rightarrow> timestamp \<Rightarrow> uuid \<Rightarrow> participant_patch option \<Rightarrow> db
     \<Rightarrow> (error + uuid option) \<times> db" where
  "update_participant updated_time current_time participant_id data db =
     (if participant_id = [] then (Inl (Exception ''Participant ID is required''), db)
      else
        (case data of
           None \<Rightarrow> (Inl (Exception ''Update data is required''), db)
         | Some data \<Rightarrow>
             if data = empty_patch then (Inl (Exception ''Update data is required''), db)
             else
               let data = data\<lparr>u_updated_at := Some updated_time\<rparr>;
                   data = stamp_status current_time data;
                   (updated_id, tbl) =
                     db_update p_id (\<lambda>p. p_id p = participant_id) (apply_patch data)
                       (participants db)
               in (Inr updated_id, db\<lparr>participants := tbl\<rparr>)))"

subsection \<open>Python strings\<close>

text \<open>\<open>sub in s\<close>, \<open>s.split(sep)\<close> for a separator that is not empty, and
  \<open>s.strip()\<close>. A string is held as its UTF-8 bytes.\<close>

fun py_in :: "string \<Rightarrow> string \<Rightarrow> bool" where
  "py_in sub [] = (sub = [])"
| "py_in sub (c # cs) = (take (length sub) (c # cs) = sub \<or> py_in sub cs)"

function split_from :: "string \<Rightarrow> string \<Rightarrow> string \<Rightarrow> string list" where
  "split_from sep acc s =
     (if s = [] then [acc]
      else if sep \<noteq> [] \<and> take (length sep) s = sep
      then acc # split_from sep [] (drop (length sep) s)
      else split_from sep (acc @ [hd s]) (tl s))"
  by pat_completeness auto
termination
  by (relation "measure (\<lambda>(sep, acc, s). length s)") auto

definition py_split :: "string \<Rightarrow> string \<Rightarrow> string list" where
  "py_split sep s = split_from sep [] s"

text \<open>The characters \<open>strip\<close> removes are those of \<open>str.isspace\<close>: U+0009 to U+000D,
  U+001C to U+0020, U+0085, U+00A0, U+1680, U+2000 to U+200A, U+2028, U+2029, U+202F,
  U+205F and U+3000, here in their UTF-8 encodings.\<close>

definition whitespace :: "string list" where
  "whitespace =
     [[CHR 0x09], [CHR 0x0A], [CHR 0x0B], [CHR 0x0C], [CHR 0x0D], [CHR 0x1C], [CHR 0x1D],
      [CHR 0x1E], [CHR 0x1F], [CHR 0x20], [CHR 0xC2, CHR 0x85], [CHR 0xC2, CHR 0xA0],
      [CHR 0xE1, CHR 0x9A, CHR 0x80], [CHR 0xE2, CHR 0x80, CHR 0x80],
      [CHR 0xE2, CHR 0x80, CHR 0x81], [CHR 0xE2, CHR 0x80, CHR 0x82],
      [CHR 0xE2, CHR 0x80, CHR 0x83], [CHR 0xE2, CHR 0x80, CHR 0x84],
      [CHR 0xE2, CHR 0x80, CHR 0x85], [CHR 0xE2, CHR 0x80, CHR 0x86],
      [CHR 0xE2, CHR 0x80, CHR 0x87], [CHR 0xE2, CHR 0x80, CHR 0x88],
      [CHR 0xE2, CHR 0x80, CHR 0x89], [CHR 0xE2, CHR 0x80, CHR 0x8A],
      [CHR 0xE2, CHR 0x80, CHR 0xA8], [CHR 0xE2, CHR 0x80, CHR 0xA9],
      [CHR 0xE2, CHR 0x80, CHR 0xAF], [CHR 0xE2, CHR 0x81, CHR 0x9F],
      [CHR 0xE3, CHR 0x80, CHR 0x80]]"

text \<open>The length of the white-space character a string starts with, or ends with; 0 when
  there is none.\<close>

definition space_prefix :: "string \<Rightarrow> nat" where
  "space_prefix s =
     (case find (\<lambda>w. take (length w) s = w) whitespace of None \<Rightarrow> 0 | Some w \<Rightarrow> length w)"

definition space_suffix :: "string \<Rightarrow> nat" where
  "space_suffix s =
     (case find (\<lambda>w. length w \<le> length s \<and> drop (length s - length w) s = w) whitespace of
        None \<Rightarrow> 0
      | Some w \<Rightarrow> length w)"

function lstrip :: "string \<Rightarrow> string" where
  "lstrip s =
     (if s = [] \<or> space_prefix s = 0 then s else lstrip (drop (space_prefix s) s))"
  by pat_completeness auto
termination
  by (relation "measure length") auto

function rstrip :: "string \<Rightarrow> string" where
  "rstrip s =
     (if s = [] \<or> space_suffix s = 0 then s
      else rstrip (take (length s - space_suffix s) s))"
  by pat_completeness auto
termination
  by (relation "measure length") auto

declare lstrip.simps [simp del] rstrip.simps [simp del]

definition py_strip :: "string \<Rightarrow> string" where
  "py_strip s = rstrip (lstrip s)"

subsection \<open>AI service\<close>

text \<open>
  The external inference services, seen from the listing. A request is one call of a
  client's \<open>create\<close> method (\<open>messages.create\<close> of Anthropic,
  \<open>chat.completions.create\<close> of OpenAI) with its prompt, kept as the values the f-string
  is built from. A client is what the n-th such call ends with: an exception (its
  text) or the reply's texts (\<open>response.content\<close>, \<open>response.choices\<close>). The world
  records the calls made on each client. What a client library does inside one call,
  its own retries included, is not in the sources and not part of this model.
\<close>

datatype prompt =
    AnalysisPrompt string "string option"
  | SynthesisPrompt json

type_synonym client = "nat \<Rightarrow> prompt \<Rightarrow> string + string list"

record ai_service =
  openai_client :: "client option"
  anthropic_client :: "client option"

record world =
  openai_calls :: "prompt list"
  anthropic_calls :: "prompt list"

text \<open>\<open>AIService.__init__\<close>: a client exists only for a key that is set.\<close>

definition init_service ::
  "string option \<Rightarrow> string option \<Rightarrow> (string \<Rightarrow> client) \<Rightarrow> (string \<Rightarrow> client) \<Rightarrow> ai_service" where
  "init_service openai_key anthropic_key OpenAI Anthropic =
     \<lparr>openai_client =
        (case openai_key of None \<Rightarrow> None | Some k \<Rightarrow> if k = [] then None else Some (OpenAI k)),
      anthropic_client =
        (case anthropic_key of
           None \<Rightarrow> None
         | Some k \<Rightarrow> if k = [] then None else Some (Anthropic k))\<rparr>"

text \<open>\<open>content.split(fence)[1].split('```')[0]\<close>\<close>

definition fenced :: "string \<Rightarrow> string \<Rightarrow> string + string" where
  "fenced fence content =
     (case py_split fence content of
        _ # part # _ \<Rightarrow>
          (case py_split ''```'' part of
             first # _ \<Rightarrow> Inr first
           | [] \<Rightarrow> Inl ''list index out of range'')
      | _ \<Rightarrow> Inl ''list index out of range'')"

definition extract_json :: "string \<Rightarrow> string + string" where
  "extract_json content =
     (if py_in ''```json'' content then fenced ''```json'' content
      else if py_in ''```'' content then fenced ''```'' content
      else Inr content)"

text \<open>\<open>json.loads\<close> is an argument: the parsed value, or the text of the decoding
  error.\<close>

definition analyze_text_response ::
  "(string \<Rightarrow> string + json) \<Rightarrow> ai_service \<Rightarrow> string \<Rightarrow> string option \<Rightarrow> world
     \<Rightarrow> (error + json) \<times> world" where
  "analyze_text_response json_loads self text context w =
     (case anthropic_client self of
        None \<Rightarrow> (Inl (ValueError ''Anthropic API key not configured''), w)
      | Some messages_create \<Rightarrow>
          let prompt = AnalysisPrompt text context;
              w' = w\<lparr>anthropic_calls := anthropic_calls w @ [prompt]\<rparr>
          in (case messages_create (length (anthropic_calls w)) prompt of
                Inl e \<Rightarrow> (Inl (Exception (''Text analysis failed: '' @ e)), w')
              | Inr [] \<Rightarrow>
                  (Inl (Exception (''Text analysis failed: '' @ ''list index out of range'')), w')
              | Inr (content # _) \<Rightarrow>
                  (case extract_json content of
                     Inl e \<Rightarrow> (Inl (Exception (''Text analysis failed: '' @ e)), w')
                   | Inr content \<Rightarrow>
                       (case json_loads (py_strip content) of
                          Inl e \<Rightarrow> (Inl (Exception (''Text analysis failed: '' @ e)), w')
                        | Inr result \<Rightarrow> (Inr result, w')))))"

definition synthesize_study_insights ::
  "(string \<Rightarrow> string + json) \<Rightarrow> ai_service \<Rightarrow> json \<Rightarrow> world \<Rightarrow> (error + json) \<times> world" where
  "synthesize_study_insights json_loads self study_data w =
     (case openai_client self of
        None \<Rightarrow> (Inl (ValueError ''OpenAI API key not configured''), w)
      | Some completions_create \<Rightarrow>
          let prompt = SynthesisPrompt study_data;
              w' = w\<lparr>openai_calls := openai_calls w @ [prompt]\<rparr>
          in (case completions_create (length (openai_calls w)) prompt of
                Inl e \<Rightarrow> (Inl (Exception (''Study synthesis failed: '' @ e)), w')
              | Inr [] \<Rightarrow>
                  (Inl (Exception (''Study synthesis failed: '' @ ''list index out of range'')), w')
              | Inr (content # _) \<Rightarrow>
                  (case json_loads content of
                     Inl e \<Rightarrow> (Inl (Exception (''Study synthesis failed: '' @ e)), w')
                   | Inr result \<Rightarrow> (Inr result, w'))))"

text \<open>The route \<open>/synthesize-study\<close>: \<open>payload.get('study_data')\<close> and the truth
  value of what it finds. A JSON object that repeats a key keeps the last value.\<close>

definition py_get :: "(string \<times> json) list \<Rightarrow> string \<Rightarrow> json option" where
  "py_get payload key = map_of (rev payload) key"

fun json_truthy :: "json option \<Rightarrow> bool" where
  "json_truthy None = False"
| "json_truthy (Some JNull) = False"
| "json_truthy (Some (JBool b)) = b"
| "json_truthy (Some (JNum n)) = (n \<noteq> 0)"
| "json_truthy (Some (JStr s)) = (s \<noteq> [])"
| "json_truthy (Some (JArr xs)) = (xs \<noteq> [])"
| "json_truthy (Some (JObj kvs)) = (kvs \<noteq> [])"

definition synthesize_study ::
  "(string \<Rightarrow> string + json) \<Rightarrow> ai_service \<Rightarrow> (string \<times> json) list \<Rightarrow> world
     \<Rightarrow> (error + json) \<times> world" where
  "synthesize_study json_loads ai_service payload w =
     (case py_get payload ''study_data'' of
        None \<Rightarrow> (Inl (Exception ''Study data is required''), w)
      | Some study_data \<Rightarrow>
          if \<not> json_truthy (Some study_data) then (Inl (Exception ''Study data is required''), w)
          else synthesize_study_insights json_loads ai_service study_data w)"

subsection \<open>Response store\<close>

text \<open>
  Modelled from the spec: the responses component (api/src/components/responses.py) is
  not among the sources; the guide leaves it as an exercise and gives the table only.
  Section 7 of the spec names the failures, section 4.3 the contract:
  \<open>submit(participantId, taskId, payload) \<rightarrow> responseId\<close> validates the payload against
  the shape implied by the task's type (\<open>InvalidPayload\<close>), fails with \<open>NotFound\<close> for
  a participant or task that does not exist and with \<open>InvalidState\<close> for a study that is
  not active, and, when a response exists for the pair, replaces it rather than creating
  a duplicate. The shape check is an argument, the spec giving it by example only. The
  side effect on the participant's status is outside this model: it does not touch the
  response store. \<open>list\<close> filters by participant, task and study, the study through the
  response's task.
\<close>

datatype failure =
    NotFound
  | InvalidArgument
  | InvalidPayload
  | InvalidTransition
  | InvalidState
  | ExternalServiceError
  | InsufficientData

definition same_pair :: "uuid \<Rightarrow> uuid \<Rightarrow> response \<Rightarrow> bool" where
  "same_pair participant_id task_id r =
     (r_participant_id r = participant_id \<and> r_task_id r = task_id)"

definition submit ::
  "(string \<Rightarrow> json \<Rightarrow> bool) \<Rightarrow> timestamp \<Rightarrow> uuid \<Rightarrow> uuid \<Rightarrow> uuid \<Rightarrow> json \<Rightarrow> db
     \<Rightarrow> (failure + uuid) \<times> db" where
  "submit valid_payload now new_id participant_id task_id payload db =
     (case find (\<lambda>p. p_id p = participant_id) (participants db) of
        None \<Rightarrow> (Inl NotFound, db)
      | Some p \<Rightarrow>
          (case find (\<lambda>t. t_id t = task_id) (tasks db) of
             None \<Rightarrow> (Inl NotFound, db)
           | Some t \<Rightarrow>
               (case find (\<lambda>s. s_id s = t_study_id t) (studies db) of
                  None \<Rightarrow> (Inl NotFound, db)
                | Some s \<Rightarrow>
                    if s_status s \<noteq> ''active'' then (Inl InvalidState, db)
                    else if \<not> valid_payload (t_type t) payload then (Inl InvalidPayload, db)
                    else
                      (case find (same_pair participant_id task_id) (responses db) of
                         Some r \<Rightarrow>
                           (Inr (r_id r),
                            db\<lparr>responses :=
                                 map (\<lambda>r. if same_pair participant_id task_id r
                                          then r\<lparr>r_response_data := payload,
                                                 r_submitted_at := Some now\<rparr>
                                          else r)
                                   (responses db)\<rparr>)
                       | None \<Rightarrow>
                           (Inr new_id,
                            db\<lparr>responses :=
                                 responses db @
                                 [\<lparr>r_id = new_id, r_participant_id = participant_id,
                                   r_task_id = task_id, r_response_data = payload,
                                   r_submitted_at = Some now, r_created_at = Some now\<rparr>]\<rparr>)))))"

record response_filter =
  f_participant_id :: "uuid option"
  f_task_id :: "uuid option"
  f_study_id :: "uuid option"

definition response_matches :: "db \<Rightarrow> response_filter \<Rightarrow> response \<Rightarrow> bool" where
  "response_matches db f r =
     ((f_participant_id f = None \<or> f_participant_id f = Some (r_participant_id r)) \<and>
      (f_task_id f = None \<or> f_task_id f = Some (r_task_id r)) \<and>
      (f_study_id f = None \<or>
       f_study_id f = map_option t_study_id (find (\<lambda>t. t_id t = r_task_id r) (tasks db))))"

definition list_responses :: "response_filter \<Rightarrow> db \<Rightarrow> response list" where
  "list_responses f db = filter (response_matches db f) (responses db)"

subsection \<open>Notions the statements use\<close>

text \<open>The tasks of a study in table order, and the query \<open>{'study_id': S}\<close>.\<close>

definition study_tasks :: "uuid \<Rightarrow> db \<Rightarrow> task list" where
  "study_tasks study_id db = filter (\<lambda>t. t_study_id t = study_id) (tasks db)"

definition study_query :: "uuid \<Rightarrow> task_query" where
  "study_query study_id = \<lparr>q_id = None, q_study_id = Some study_id, q_type = None\<rparr>"

text \<open>The position the loop of \<open>reorder_tasks\<close> writes last for an id: its last
  occurrence in the list, counted from \<open>index\<close>. \<open>reordered\<close> is the row a task ends
  as.\<close>

fun last_position :: "nat \<Rightarrow> uuid list \<Rightarrow> uuid \<Rightarrow> nat option" where
  "last_position index [] x = None"
| "last_position index (y # ys) x =
     (case last_position (Suc index) ys x of
        Some j \<Rightarrow> Some j
      | None \<Rightarrow> if x = y then Some index else None)"

definition reordered :: "(nat \<Rightarrow> timestamp) \<Rightarrow> uuid \<Rightarrow> nat \<Rightarrow> uuid list \<Rightarrow> task \<Rightarrow> task" where
  "reordered clock study_id index task_ids t =
     (if t_study_id t = study_id
      then (case last_position index task_ids (t_id t) of
              None \<Rightarrow> t
            | Some j \<Rightarrow> t\<lparr>t_order_index := int j, t_updated_at := clock j\<rparr>)
      else t)"

text \<open>Sequences of calls of \<open>create_task\<close> and \<open>reorder_tasks\<close>; a failed call leaves
  the database as it was. A sequence is admissible for a study when each of its
  \<open>create_task\<close> calls for the study leaves \<open>order_index\<close> out and each of its
  \<open>reorder_tasks\<close> calls for the study lists every task the study has at that
  moment.\<close>

datatype op =
    AddTask timestamp "task_data option"
  | Reorder "nat \<Rightarrow> timestamp" uuid "uuid list"

fun apply_op :: "op \<Rightarrow> db \<Rightarrow> db" where
  "apply_op (AddTask current_time task) db = snd (create_task current_time task db)"
| "apply_op (Reorder clock study_id task_ids) db = snd (reorder_tasks clock study_id task_ids db)"

fun admissible_op :: "uuid \<Rightarrow> op \<Rightarrow> db \<Rightarrow> bool" where
  "admissible_op S (AddTask current_time task) db =
     (case task of
        None \<Rightarrow> True
      | Some d \<Rightarrow> d_study_id d \<noteq> Some S \<or> d_order_index d = None)"
| "admissible_op S (Reorder clock study_id task_ids) db =
     (study_id \<noteq> S \<or> set (map t_id (study_tasks S db)) \<subseteq> set task_ids)"

fun admissible :: "uuid \<Rightarrow> op list \<Rightarrow> db \<Rightarrow> bool" where
  "admissible S [] db = True"
| "admissible S (x # xs) db = (admissible_op S x db \<and> admissible S xs (apply_op x db))"

text \<open>What admissible sequences preserve: ids are distinct in the table, and no two
  tasks of the study share an \<open>order_index\<close>.\<close>

definition tasks_inv :: "uuid \<Rightarrow> db \<Rightarrow> bool" where
  "tasks_inv S db =
     (distinct (map t_id (tasks db)) \<and> distinct (map t_order_index (study_tasks S db)))"

text \<open>The stored row of a participant; the (participant, task) pair of a response and
  the filter that selects it.\<close>

definition find_participant :: "uuid \<Rightarrow> db \<Rightarrow> participant option" where
  "find_participant participant_id db = find (\<lambda>p. p_id p = participant_id) (participants db)"

definition pair_of :: "response \<Rightarrow> uuid \<times> uuid" where
  "pair_of r = (r_participant_id r, r_task_id r)"

definition pair_filter :: "uuid \<Rightarrow> uuid \<Rightarrow> response_filter" where
  "pair_filter participant_id task_id =
     \<lparr>f_participant_id = Some participant_id, f_task_id = Some task_id, f_study_id = None\<rparr>"

subsection \<open>Example data\<close>

definition empty_db :: db where
  "empty_db = \<lparr>studies = [], tasks = [], participants = [], responses = []\<rparr>"

definition task_request :: "uuid \<Rightarrow> string \<Rightarrow> string \<Rightarrow> int option \<Rightarrow> task_data" where
  "task_request i type title order =
     \<lparr>d_id = i, d_study_id = Some ''study-1'', d_type = Some type, d_title = Some title,
      d_instructions = None, d_order_index = order\<rparr>"

definition two_tasks :: "op list" where
  "two_tasks =
     [AddTask ''2025-01-01 10:00:00'' (Some (task_request ''task-1'' ''camera'' ''T1'' None)),
      AddTask ''2025-01-01 10:05:00'' (Some (task_request ''task-2'' ''discussion'' ''T2'' None))]"

definition db_two_tasks :: db where
  "db_two_tasks = fold apply_op two_tasks empty_db"

definition db_negative :: db where
  "db_negative =
     apply_op (AddTask ''2025-01-01 10:00:00''
                 (Some (task_request ''task-1'' ''camera'' ''T1'' (Some (- 5))))) empty_db"

definition participant_request :: participant_data where
  "participant_request =
     \<lparr>pd_id = ''participant-1'', pd_study_id = Some ''study-1'',
      pd_contact = Some ''p1@example.com'', pd_demographics = None, pd_status = None,
      pd_invited_at = None, pd_started_at = None, pd_completed_at = None\<rparr>"

definition status_patch :: "string \<Rightarrow> participant_patch" where
  "status_patch status = empty_patch\<lparr>u_status := Some status\<rparr>"

definition db_invited :: db where
  "db_invited = snd (create_participant ''2025-01-03 09:00:00'' (Some participant_request) empty_db)"

definition db_started :: db where
  "db_started =
     snd (update_participant ''2025-01-04 09:00:00'' ''2025-01-04 09:00:01'' ''participant-1''
            (Some (status_patch ''started'')) db_invited)"

definition db_completed :: db where
  "db_completed =
     snd (update_participant ''2025-01-05 09:00:00'' ''2025-01-05 09:00:01'' ''participant-1''
            (Some (status_patch ''completed'')) db_started)"

definition example_loads :: "string \<Rightarrow> string + json" where
  "example_loads s =
     (if s = ''{}'' then Inr (JObj []) else Inl ''Expecting value: line 1 column 1 (char 0)'')"

definition steady_client :: client where
  "steady_client n request = Inr [''{}'']"

definition steady_service :: ai_service where
  "steady_service =
     init_service (Some ''sk-test'') (Some ''sk-ant-test'') (\<lambda>k. steady_client) (\<lambda>k. steady_client)"

definition unconfigured_service :: ai_service where
  "unconfigured_service = init_service None (Some []) (\<lambda>k. steady_client) (\<lambda>k. steady_client)"

definition world0 :: world where
  "world0 = \<lparr>openai_calls = [], anthropic_calls = []\<rparr>"

definition no_responses :: json where
  "no_responses =
     JObj [(''study'', JObj [(''id'', JStr ''study-1''), (''status'', JStr ''active'')]),
           (''participants'', JArr []),
           (''responses'', JArr [])]"

definition example_shape :: "string \<Rightarrow> json \<Rightarrow> bool" where
  "example_shape type payload =
     (case payload of
        JObj kvs \<Rightarrow> if type = ''discussion'' then map fst kvs = [''text''] else kvs \<noteq> []
      | _ \<Rightarrow> False)"

definition db_active :: db where
  "db_active =
     (snd (create_participant ''2025-01-03 09:00:00'' (Some participant_request) db_two_tasks))
       \<lparr>studies := [\<lparr>s_id = ''study-1'', s_status = ''active''\<rparr>]\<rparr>"

section \<open>Properties\<close>

subsection \<open>Task ordering\<close>

lemma last_position_None: "last_position k ids x = None \<longleftrightarrow> x \<notin> set ids"
proof (induction ids arbitrary: k)
  case Nil
  show ?case by simp
next
  case (Cons a ids)
  show ?case using Cons.IH [of "Suc k"] by (cases "last_position (Suc k) ids x") auto
qed

lemma last_position_Some:
  "last_position k ids x = Some j \<Longrightarrow> k \<le> j \<and> j < k + length ids \<and> ids ! (j - k) = x
     \<and> (\<forall>i. j - k < i \<and> i < length ids \<longrightarrow> ids ! i \<noteq> x)"
proof (induction ids arbitrary: k)
  case Nil
  then show ?case by simp
next
  case (Cons a ids)
  show ?case
  proof (cases "last_position (Suc k) ids x")
    case None
    with Cons.prems have xa: "x = a" and j: "j = k" by (auto split: if_splits)
    from None have "x \<notin> set ids" by (simp add: last_position_None)
    then have "\<forall>i. 0 < i \<and> i < length (a # ids) \<longrightarrow> (a # ids) ! i \<noteq> x"
      by (auto simp: nth_Cons split: nat.splits)
    with xa j show ?thesis by simp
  next
    case (Some j')
    with Cons.prems have j: "j' = j" by simp
    from Cons.IH [of "Suc k"] Some j
    have a: "Suc k \<le> j" and b: "j < Suc k + length ids" and c: "ids ! (j - Suc k) = x"
      and d: "\<forall>i. j - Suc k < i \<and> i < length ids \<longrightarrow> ids ! i \<noteq> x" by auto
    have e: "j - k = Suc (j - Suc k)" using a by arith
    have "\<forall>i. j - k < i \<and> i < length (a # ids) \<longrightarrow> (a # ids) ! i \<noteq> x"
    proof (intro allI impI)
      fix i assume i: "j - k < i \<and> i < length (a # ids)"
      then obtain i' where i': "i = Suc i'" by (cases i) auto
      with i e have "j - Suc k < i' \<and> i' < length ids" by simp
      with d have "ids ! i' \<noteq> x" by blast
      with i' show "(a # ids) ! i \<noteq> x" by simp
    qed
    with a b c e show ?thesis by simp
  qed
qed

lemma reorder_loop_map:
  "reorder_loop clock sid k ids tbl = map (reordered clock sid k ids) tbl"
proof (induction ids arbitrary: k tbl)
  case Nil
  show ?case by (simp add: reordered_def map_idI)
next
  case (Cons a ids)
  show ?case
    apply (simp add: Cons.IH db_update_def task_matches_def)
    apply (auto simp: reordered_def split: option.splits)
    done
qed

lemma reordered_id [simp]: "t_id (reordered clock sid k ids t) = t_id t"
  by (simp add: reordered_def split: option.splits)

lemma reordered_study [simp]: "t_study_id (reordered clock sid k ids t) = t_study_id t"
  by (simp add: reordered_def split: option.splits)

lemma reordered_other: "t_study_id t \<noteq> sid \<or> t_id t \<notin> set ids \<Longrightarrow> reordered clock sid k ids t = t"
proof (cases "t_study_id t = sid")
  case True
  assume "t_study_id t \<noteq> sid \<or> t_id t \<notin> set ids"
  with True have "last_position k ids (t_id t) = None" by (simp add: last_position_None)
  then show ?thesis by (simp add: reordered_def)
next
  case False
  then show ?thesis by (simp add: reordered_def)
qed

lemma reordered_listed:
  assumes "t_study_id t = sid" and "t_id t \<in> set ids"
  shows "\<exists>j. last_position k ids (t_id t) = Some j \<and>
             reordered clock sid k ids t = t\<lparr>t_order_index := int j, t_updated_at := clock j\<rparr>"
proof -
  from assms(2) obtain j where "last_position k ids (t_id t) = Some j"
    using last_position_None [of k ids "t_id t"] by (cases "last_position k ids (t_id t)") auto
  with assms(1) show ?thesis by (simp add: reordered_def)
qed

lemma task_matches_study [simp]:
  "task_matches \<lparr>q_id = None, q_study_id = Some S, q_type = None\<rparr> = (\<lambda>t. t_study_id t = S)"
  by (auto simp: task_matches_def fun_eq_iff)

lemma read_tasks_study:
  "read_tasks (Some (study_query S)) db = sort_key t_order_index (study_tasks S db)"
  by (simp add: read_tasks_def study_query_def study_tasks_def db_read_def)

lemma distinct_map_insort_key:
  "distinct (map f (insort_key f x xs)) = (f x \<notin> f ` set xs \<and> distinct (map f xs))"
  by (induction xs) (auto simp: set_insort_key)

lemma distinct_map_sort_key: "distinct (map f (sort_key f xs)) = distinct (map f xs)"
  by (induction xs) (simp_all add: distinct_map_insort_key)

lemma max_order_ge: "t \<in> set ts \<Longrightarrow> t_order_index t \<le> max_order ts"
  by (simp add: max_order_def)

lemma max_order_fresh: "max_order ts + 1 \<notin> set (map t_order_index ts)"
proof
  assume "max_order ts + 1 \<in> set (map t_order_index ts)"
  then obtain t where "t \<in> set ts" and "t_order_index t = max_order ts + 1" by auto
  with max_order_ge [of t ts] show False by simp
qed

lemma create_task_effect:
  "tasks (snd (create_task now task db)) = tasks db \<or>
   (\<exists>d S row. task = Some d \<and> d_study_id d = Some S \<and>
      tasks (snd (create_task now task db)) = tasks db @ [row] \<and>
      t_id row \<notin> set (map t_id (tasks db)) \<and> t_study_id row = S \<and>
      t_order_index row =
        (case d_order_index d of Some i \<Rightarrow> i | None \<Rightarrow> max_order (study_tasks S db) + 1))"
  by (auto simp: create_task_def db_create_def db_read_def study_tasks_def Let_def truthy_def
           split: option.splits)

lemma tasks_inv_create:
  assumes inv: "tasks_inv S db" and adm: "admissible_op S (AddTask now task) db"
  shows "tasks_inv S (snd (create_task now task db))"
proof -
  let ?db' = "snd (create_task now task db)"
  from create_task_effect [of now task db] show ?thesis
  proof (elim disjE exE conjE)
    assume "tasks ?db' = tasks db"
    with inv show ?thesis by (simp add: tasks_inv_def study_tasks_def)
  next
    fix d S' row
    assume task: "task = Some d" and st: "d_study_id d = Some S'"
      and tb: "tasks ?db' = tasks db @ [row]"
      and fresh: "t_id row \<notin> set (map t_id (tasks db))"
      and rs: "t_study_id row = S'"
      and oi: "t_order_index row =
        (case d_order_index d of Some i \<Rightarrow> i | None \<Rightarrow> max_order (study_tasks S' db) + 1)"
    show ?thesis
    proof (cases "S' = S")
      case True
      with adm task st have "d_order_index d = None" by simp
      with oi True have "t_order_index row = max_order (study_tasks S db) + 1" by simp
      with max_order_fresh [of "study_tasks S db"]
      have "t_order_index row \<notin> set (map t_order_index (study_tasks S db))" by simp
      with inv tb fresh rs True show ?thesis by (simp add: tasks_inv_def study_tasks_def)
    next
      case False
      with inv tb fresh rs show ?thesis by (simp add: tasks_inv_def study_tasks_def)
    qed
  qed
qed

lemma reorder_tasks_tasks:
  "tasks (snd (reorder_tasks clock sid ids db)) = tasks db \<or>
   tasks (snd (reorder_tasks clock sid ids db)) = map (reordered clock sid 1 ids) (tasks db)"
  by (simp add: reorder_tasks_def reorder_loop_map)

lemma filter_map_reordered:
  "filter (\<lambda>t. t_study_id t = S) (map (reordered clock sid k ids) ts) =
   map (reordered clock sid k ids) (filter (\<lambda>t. t_study_id t = S) ts)"
  by (induction ts) simp_all

lemma last_position_inj:
  "last_position k ids x = Some j \<Longrightarrow> last_position k ids y = Some j \<Longrightarrow> x = y"
  using last_position_Some [of k ids x j] last_position_Some [of k ids y j] by simp

lemma distinct_reordered:
  assumes "distinct (map t_id ts)" and "\<forall>t\<in>set ts. t_study_id t = S"
    and "set (map t_id ts) \<subseteq> set ids"
  shows "distinct (map t_order_index (map (reordered clock S k ids) ts))"
proof -
  have "inj_on (\<lambda>t. t_order_index (reordered clock S k ids t)) (set ts)"
  proof (rule inj_onI)
    fix a b assume a: "a \<in> set ts" and b: "b \<in> set ts"
      and eq: "t_order_index (reordered clock S k ids a) = t_order_index (reordered clock S k ids b)"
    from a assms have "t_study_id a = S" "t_id a \<in> set ids" by auto
    from reordered_listed [OF this, of k clock] obtain i where
      i: "last_position k ids (t_id a) = Some i" "t_order_index (reordered clock S k ids a) = int i"
      by auto
    from b assms have "t_study_id b = S" "t_id b \<in> set ids" by auto
    from reordered_listed [OF this, of k clock] obtain j where
      j: "last_position k ids (t_id b) = Some j" "t_order_index (reordered clock S k ids b) = int j"
      by auto
    from eq i j have "i = j" by simp
    with i j have "t_id a = t_id b" using last_position_inj by blast
    with assms(1) a b show "a = b" by (meson distinct_map inj_onD)
  qed
  moreover from assms(1) have "distinct ts" by (simp add: distinct_map)
  ultimately show ?thesis by (simp add: distinct_map comp_def)
qed

lemma tasks_inv_reorder:
  assumes inv: "tasks_inv S db" and adm: "admissible_op S (Reorder clock sid ids) db"
  shows "tasks_inv S (snd (reorder_tasks clock sid ids db))"
proof -
  let ?db' = "snd (reorder_tasks clock sid ids db)"
  from reorder_tasks_tasks [of clock sid ids db] show ?thesis
  proof
    assume "tasks ?db' = tasks db"
    with inv show ?thesis by (simp add: tasks_inv_def study_tasks_def)
  next
    assume tb: "tasks ?db' = map (reordered clock sid 1 ids) (tasks db)"
    have ids: "distinct (map t_id (tasks ?db'))"
      using inv by (simp add: tb tasks_inv_def comp_def)
    have st: "study_tasks S ?db' = map (reordered clock sid 1 ids) (study_tasks S db)"
      by (simp add: study_tasks_def tb filter_map_reordered)
    show ?thesis
    proof (cases "sid = S")
      case True
      from inv have "distinct (map t_id (study_tasks S db))"
        by (simp add: tasks_inv_def study_tasks_def distinct_map_filter)
      moreover have "\<forall>t\<in>set (study_tasks S db). t_study_id t = S"
        by (simp add: study_tasks_def)
      moreover from adm True have "set (map t_id (study_tasks S db)) \<subseteq> set ids" by simp
      ultimately have "distinct (map t_order_index (map (reordered clock S 1 ids) (study_tasks S db)))"
        by (rule distinct_reordered)
      with ids st True show ?thesis by (simp add: tasks_inv_def)
    next
      case False
      have "map (reordered clock sid 1 ids) (study_tasks S db) = study_tasks S db"
        using False by (intro map_idI) (simp add: study_tasks_def reordered_other)
      with ids st inv show ?thesis by (simp add: tasks_inv_def)
    qed
  qed
qed

lemma tasks_inv_fold:
  "tasks_inv S db \<Longrightarrow> admissible S ops db \<Longrightarrow> tasks_inv S (fold apply_op ops db)"
proof (induction ops arbitrary: db)
  case Nil
  then show ?case by simp
next
  case (Cons x xs)
  from Cons.prems have a: "admissible_op S x db" and b: "admissible S xs (apply_op x db)" by simp_all
  have "tasks_inv S (apply_op x db)"
    using Cons.prems(1) a by (cases x) (simp_all add: tasks_inv_create tasks_inv_reorder del: admissible_op.simps)
  from Cons.IH [OF this b] show ?case by simp
qed

lemmas eval_defs = empty_db_def task_request_def two_tasks_def db_two_tasks_def db_negative_def
  create_task_def db_create_def db_read_def db_update_def truthy_def valid_types_def
  max_order_def task_matches_def reorder_tasks_def read_tasks_def study_query_def study_tasks_def
  Let_def

lemma db_two_tasks_eval:
  "db_two_tasks =
     \<lparr>studies = [], tasks =
        [\<lparr>t_id = ''task-1'', t_study_id = ''study-1'', t_type = ''camera'', t_title = ''T1'',
          t_instructions = None, t_order_index = 1, t_created_at = ''2025-01-01 10:00:00'',
          t_updated_at = ''2025-01-01 10:00:00''\<rparr>,
         \<lparr>t_id = ''task-2'', t_study_id = ''study-1'', t_type = ''discussion'', t_title = ''T2'',
          t_instructions = None, t_order_index = 2, t_created_at = ''2025-01-01 10:05:00'',
          t_updated_at = ''2025-01-01 10:05:00''\<rparr>],
      participants = [], responses = []\<rparr>"
  by (simp add: eval_defs)

lemma db_negative_eval:
  "db_negative =
     \<lparr>studies = [], tasks =
        [\<lparr>t_id = ''task-1'', t_study_id = ''study-1'', t_type = ''camera'', t_title = ''T1'',
          t_instructions = None, t_order_index = - 5, t_created_at = ''2025-01-01 10:00:00'',
          t_updated_at = ''2025-01-01 10:00:00''\<rparr>],
      participants = [], responses = []\<rparr>"
  by (simp add: eval_defs)

text \<open>Against C1 as stated: two tasks created with the explicit \<open>order_index\<close> 0 are both
  listed with index 0; and after two appended tasks, a reorder that lists only the second
  leaves both with index 1.\<close>

theorem read_tasks_not_strict_counterexample:
  "map t_order_index
     (read_tasks (Some (study_query ''study-1''))
        (fold apply_op
           [AddTask ''2025-01-01 10:00:00'' (Some (task_request ''task-1'' ''camera'' ''T1'' (Some 0))),
            AddTask ''2025-01-01 10:05:00'' (Some (task_request ''task-2'' ''discussion'' ''T2'' (Some 0)))]
           empty_db)) = [0, 0]
   \<and> map t_order_index
     (read_tasks (Some (study_query ''study-1''))
        (fold apply_op (two_tasks @ [Reorder (\<lambda>n. ''2025-01-02 09:00:00'') ''study-1'' [''task-2'']])
           empty_db)) = [1, 1]
   \<and> \<not> sorted_wrt (<) [0, 0 :: int] \<and> \<not> sorted_wrt (<) [1, 1 :: int]"
  by (simp add: eval_defs reorder_loop_map reordered_def)

text \<open>Claim C1, amended. After any sequence of \<open>create_task\<close> and \<open>reorder_tasks\<close> calls,
  \<open>read_tasks\<close> returns the selected tasks sorted by \<open>order_index\<close>, never decreasing.
  For a study that starts with no tasks (in a table whose ids are distinct), the indexes
  listed are strictly increasing, with no duplicates, when the sequence is admissible:
  every \<open>create_task\<close> for the study left \<open>order_index\<close> out, and every \<open>reorder_tasks\<close>
  for the study listed all of the study's current tasks.\<close>

theorem read_tasks_order:
  assumes "distinct (map t_id (tasks db))" and "study_tasks S db = []" and "admissible S ops db"
  shows "sorted_wrt (<) (map t_order_index (read_tasks (Some (study_query S)) (fold apply_op ops db)))
       \<and> sorted (map t_order_index (read_tasks query (fold apply_op ops' db')))"
proof
  from assms(1,2) have "tasks_inv S db" by (simp add: tasks_inv_def)
  from tasks_inv_fold [OF this assms(3)]
  have "distinct (map t_order_index (study_tasks S (fold apply_op ops db)))"
    by (simp add: tasks_inv_def)
  then show "sorted_wrt (<) (map t_order_index (read_tasks (Some (study_query S)) (fold apply_op ops db)))"
    by (simp add: strict_sorted_iff read_tasks_study distinct_map_sort_key)
  show "sorted (map t_order_index (read_tasks query (fold apply_op ops' db')))"
    by (simp add: read_tasks_def Let_def)
qed

theorem read_tasks_order_witness:
  "distinct (map t_id (tasks empty_db)) \<and> study_tasks ''study-1'' empty_db = []
   \<and> admissible ''study-1''
       (two_tasks @ [Reorder (\<lambda>n. ''2025-01-02 09:00:00'') ''study-1'' [''task-2'', ''task-1'']]) empty_db
   \<and> sorted_wrt (<) (map t_order_index (read_tasks (Some (study_query ''study-1''))
       (fold apply_op
          (two_tasks @ [Reorder (\<lambda>n. ''2025-01-02 09:00:00'') ''study-1'' [''task-2'', ''task-1'']])
          empty_db)))
   \<and> map t_id (read_tasks (Some (study_query ''study-1''))
       (fold apply_op
          (two_tasks @ [Reorder (\<lambda>n. ''2025-01-02 09:00:00'') ''study-1'' [''task-2'', ''task-1'']])
          empty_db)) = [''task-2'', ''task-1'']"
proof -
  let ?ops = "two_tasks @ [Reorder (\<lambda>n. ''2025-01-02 09:00:00'') ''study-1'' [''task-2'', ''task-1'']]"
  have a: "distinct (map t_id (tasks empty_db))" by (simp add: empty_db_def)
  have b: "study_tasks ''study-1'' empty_db = []" by (simp add: empty_db_def study_tasks_def)
  have c: "admissible ''study-1'' ?ops empty_db" by (simp add: eval_defs)
  have d: "map t_id (read_tasks (Some (study_query ''study-1'')) (fold apply_op ?ops empty_db))
             = [''task-2'', ''task-1'']"
    by (simp add: eval_defs reorder_loop_map reordered_def)
  from read_tasks_order [OF a b c] a b c d show ?thesis by blast
qed




text \<open>Against C10 as stated: with the empty study id and a non-empty list the call fails with
  "Study ID is required".\<close>

theorem reorder_tasks_empty_study_counterexample:
  "[''task-1''] \<noteq> []
   \<and> reorder_tasks (\<lambda>n. ''2025-01-02 09:00:00'') [] [''task-1''] db_two_tasks
       = (Inl (Exception ''Study ID is required''), db_two_tasks)"
  by (simp add: reorder_tasks_def)

text \<open>Claim C10, amended. For every study id that is not empty and every non-empty list of
  task ids, \<open>reorder_tasks\<close> succeeds with its message and maps the table through
  \<open>reordered\<close>: a task of another study, or one whose id is not listed, keeps every
  field (a listed id of another study is skipped without error); a listed task of the
  study gets as \<open>order_index\<close> the position, counted from 1, of the last occurrence of
  its id in the list, and \<open>updated_at\<close> the time of that iteration. No other table
  changes.\<close>

theorem reorder_tasks_frame:
  assumes "study_id \<noteq> []" and "task_ids \<noteq> []"
  shows "reorder_tasks clock study_id task_ids db =
           (Inr ''Tasks reordered successfully'',
            db\<lparr>tasks := map (reordered clock study_id 1 task_ids) (tasks db)\<rparr>)
       \<and> (\<forall>t. t_study_id t \<noteq> study_id \<or> t_id t \<notin> set task_ids \<longrightarrow>
              reordered clock study_id 1 task_ids t = t)
       \<and> (\<forall>t. t_study_id t = study_id \<and> t_id t \<in> set task_ids \<longrightarrow>
              (\<exists>j. 1 \<le> j \<and> j \<le> length task_ids \<and> task_ids ! (j - 1) = t_id t \<and>
                   (\<forall>i. j \<le> i \<and> i < length task_ids \<longrightarrow> task_ids ! i \<noteq> t_id t) \<and>
                   reordered clock study_id 1 task_ids t =
                     t\<lparr>t_order_index := int j, t_updated_at := clock j\<rparr>))"
proof (intro conjI allI impI)
  show "reorder_tasks clock study_id task_ids db =
           (Inr ''Tasks reordered successfully'',
            db\<lparr>tasks := map (reordered clock study_id 1 task_ids) (tasks db)\<rparr>)"
    using assms by (simp add: reorder_tasks_def reorder_loop_map)
next
  fix t :: task assume "t_study_id t \<noteq> study_id \<or> t_id t \<notin> set task_ids"
  then show "reordered clock study_id 1 task_ids t = t" by (rule reordered_other)
next
  fix t :: task assume t: "t_study_id t = study_id \<and> t_id t \<in> set task_ids"
  then have "t_study_id t = study_id" and "t_id t \<in> set task_ids" by simp_all
  from reordered_listed [OF this, of 1 clock] obtain j where
    j: "last_position 1 task_ids (t_id t) = Some j"
    and r: "reordered clock study_id 1 task_ids t = t\<lparr>t_order_index := int j, t_updated_at := clock j\<rparr>"
    by auto
  from last_position_Some [OF j]
  have a: "1 \<le> j" and b: "j < 1 + length task_ids" and c: "task_ids ! (j - 1) = t_id t"
    and d: "\<forall>i. j - 1 < i \<and> i < length task_ids \<longrightarrow> task_ids ! i \<noteq> t_id t" by auto
  have "\<forall>i. j \<le> i \<and> i < length task_ids \<longrightarrow> task_ids ! i \<noteq> t_id t"
  proof (intro allI impI)
    fix i assume "j \<le> i \<and> i < length task_ids"
    with a have "j - 1 < i \<and> i < length task_ids" by arith
    with d show "task_ids ! i \<noteq> t_id t" by blast
  qed
  with a b c r
  show "\<exists>j. 1 \<le> j \<and> j \<le> length task_ids \<and> task_ids ! (j - 1) = t_id t \<and>
            (\<forall>i. j \<le> i \<and> i < length task_ids \<longrightarrow> task_ids ! i \<noteq> t_id t) \<and>
            reordered clock study_id 1 task_ids t = t\<lparr>t_order_index := int j, t_updated_at := clock j\<rparr>"
    by (intro exI [of _ j]) simp
qed

theorem reorder_tasks_frame_witness:
  "''study-1'' \<noteq> [] \<and> [''task-2'', ''task-9''] \<noteq> []
   \<and> reorder_tasks (\<lambda>n. ''2025-01-02 09:00:00'') ''study-1'' [''task-2'', ''task-9''] db_two_tasks =
       (Inr ''Tasks reordered successfully'',
        db_two_tasks\<lparr>tasks :=
          [\<lparr>t_id = ''task-1'', t_study_id = ''study-1'', t_type = ''camera'', t_title = ''T1'',
            t_instructions = None, t_order_index = 1, t_created_at = ''2025-01-01 10:00:00'',
            t_updated_at = ''2025-01-01 10:00:00''\<rparr>,
           \<lparr>t_id = ''task-2'', t_study_id = ''study-1'', t_type = ''discussion'', t_title = ''T2'',
            t_instructions = None, t_order_index = 1, t_created_at = ''2025-01-01 10:05:00'',
            t_updated_at = ''2025-01-02 09:00:00''\<rparr>]\<rparr>)
   \<and> t_id (hd (tasks db_two_tasks)) \<notin> set [''task-2'', ''task-9'']
   \<and> reordered (\<lambda>n. ''2025-01-02 09:00:00'') ''study-1'' 1 [''task-2'', ''task-9'']
         (hd (tasks db_two_tasks)) = hd (tasks db_two_tasks)
   \<and> t_study_id (last (tasks db_two_tasks)) = ''study-1''
   \<and> t_id (last (tasks db_two_tasks)) \<in> set [''task-2'', ''task-9'']
   \<and> t_order_index (reordered (\<lambda>n. ''2025-01-02 09:00:00'') ''study-1'' 1 [''task-2'', ''task-9'']
         (last (tasks db_two_tasks))) = 1"
proof -
  let ?clock = "\<lambda>n::nat. ''2025-01-02 09:00:00''"
  have a: "''study-1'' \<noteq> []" by simp
  have b: "[''task-2'', ''task-9''] \<noteq> []" by simp
  have c: "t_id (hd (tasks db_two_tasks)) \<notin> set [''task-2'', ''task-9'']"
    and d: "t_study_id (last (tasks db_two_tasks)) = ''study-1''"
    and e: "t_id (last (tasks db_two_tasks)) \<in> set [''task-2'', ''task-9'']"
    by (simp_all add: db_two_tasks_eval)
  note th = reorder_tasks_frame [OF a b, of ?clock db_two_tasks]
  from th have "reorder_tasks ?clock ''study-1'' [''task-2'', ''task-9''] db_two_tasks =
           (Inr ''Tasks reordered successfully'',
            db_two_tasks\<lparr>tasks := map (reordered ?clock ''study-1'' 1 [''task-2'', ''task-9''])
               (tasks db_two_tasks)\<rparr>)"
    by blast
  then have f: "reorder_tasks ?clock ''study-1'' [''task-2'', ''task-9''] db_two_tasks =
       (Inr ''Tasks reordered successfully'',
        db_two_tasks\<lparr>tasks :=
          [\<lparr>t_id = ''task-1'', t_study_id = ''study-1'', t_type = ''camera'', t_title = ''T1'',
            t_instructions = None, t_order_index = 1, t_created_at = ''2025-01-01 10:00:00'',
            t_updated_at = ''2025-01-01 10:00:00''\<rparr>,
           \<lparr>t_id = ''task-2'', t_study_id = ''study-1'', t_type = ''discussion'', t_title = ''T2'',
            t_instructions = None, t_order_index = 1, t_created_at = ''2025-01-01 10:05:00'',
            t_updated_at = ''2025-01-02 09:00:00''\<rparr>]\<rparr>)"
    by (simp add: db_two_tasks_eval reordered_def)
  from th c have g: "reordered ?clock ''study-1'' 1 [''task-2'', ''task-9'']
         (hd (tasks db_two_tasks)) = hd (tasks db_two_tasks)"
    by blast
  have h: "t_order_index (reordered ?clock ''study-1'' 1 [''task-2'', ''task-9'']
         (last (tasks db_two_tasks))) = 1"
    by (simp add: db_two_tasks_eval reordered_def)
  from a b c d e f g h show ?thesis by blast
qed

text \<open>What \<open>create_task\<close> computes when \<open>order_index\<close> is left out, on valid data
  with a fresh id: the maximum of 0 and the study's existing indexes, plus 1. That is 1
  for a study with no tasks, and the maximum existing index plus 1 whenever some task of
  the study has an index that is not negative.\<close>

theorem create_task_default_order_index:
  assumes "d_study_id d = Some S" and "S \<noteq> []"
    and "d_type d = Some type" and "type \<in> set valid_types"
    and "d_title d = Some title" and "title \<noteq> []"
    and "d_id d \<notin> set (map t_id (tasks db))"
    and "d_order_index d = None"
  shows "create_task now (Some d) db =
           (Inr (d_id d),
            db\<lparr>tasks := tasks db @
              [\<lparr>t_id = d_id d, t_study_id = S, t_type = type, t_title = title,
                t_instructions = d_instructions d,
                t_order_index = max 0 (Max (set (0 # map t_order_index (study_tasks S db)))) + 1,
                t_created_at = now, t_updated_at = now\<rparr>]\<rparr>)
       \<and> (study_tasks S db = [] \<longrightarrow>
            max 0 (Max (set (0 # map t_order_index (study_tasks S db)))) + 1 = 1)
       \<and> ((\<exists>t \<in> set (study_tasks S db). 0 \<le> t_order_index t) \<longrightarrow>
            max 0 (Max (set (0 # map t_order_index (study_tasks S db)))) + 1
              = Max (set (map t_order_index (study_tasks S db))) + 1)"
proof (intro conjI impI)
  from assms(4) have "type \<noteq> []" by (auto simp: valid_types_def)
  with assms show "create_task now (Some d) db =
           (Inr (d_id d),
            db\<lparr>tasks := tasks db @
              [\<lparr>t_id = d_id d, t_study_id = S, t_type = type, t_title = title,
                t_instructions = d_instructions d,
                t_order_index = max 0 (Max (set (0 # map t_order_index (study_tasks S db)))) + 1,
                t_created_at = now, t_updated_at = now\<rparr>]\<rparr>)"
    by (simp add: create_task_def truthy_def db_create_def db_read_def max_order_def study_tasks_def)
next
  assume "study_tasks S db = []"
  then show "max 0 (Max (set (0 # map t_order_index (study_tasks S db)))) + 1 = 1" by simp
next
  assume "\<exists>t \<in> set (study_tasks S db). 0 \<le> t_order_index t"
  then obtain t where t: "t \<in> set (study_tasks S db)" and nn: "0 \<le> t_order_index t" by blast
  let ?A = "set (map t_order_index (study_tasks S db))"
  have fin: "finite ?A" by simp
  from t have mem: "t_order_index t \<in> ?A" by simp
  then have ne: "?A \<noteq> {}" by auto
  from Max_ge [OF fin mem] nn have "0 \<le> Max ?A" by simp
  moreover have "Max (set (0 # map t_order_index (study_tasks S db))) = max 0 (Max ?A)"
    using fin ne by simp
  ultimately show "max 0 (Max (set (0 # map t_order_index (study_tasks S db)))) + 1 = Max ?A + 1"
    by simp
qed

theorem create_task_default_order_index_witness:
  "d_study_id (task_request ''task-3'' ''gallery'' ''T3'' None) = Some ''study-1'' \<and> ''study-1'' \<noteq> []
   \<and> d_type (task_request ''task-3'' ''gallery'' ''T3'' None) = Some ''gallery''
   \<and> ''gallery'' \<in> set valid_types
   \<and> d_title (task_request ''task-3'' ''gallery'' ''T3'' None) = Some ''T3'' \<and> ''T3'' \<noteq> []
   \<and> d_id (task_request ''task-3'' ''gallery'' ''T3'' None) \<notin> set (map t_id (tasks db_two_tasks))
   \<and> d_id (task_request ''task-3'' ''gallery'' ''T3'' None) \<notin> set (map t_id (tasks empty_db))
   \<and> d_order_index (task_request ''task-3'' ''gallery'' ''T3'' None) = None
   \<and> map t_order_index (tasks (snd (create_task ''2025-01-01 10:10:00''
        (Some (task_request ''task-3'' ''gallery'' ''T3'' None)) db_two_tasks))) = [1, 2, 3]
   \<and> study_tasks ''study-1'' empty_db = []
   \<and> map t_order_index (tasks (snd (create_task ''2025-01-01 10:10:00''
        (Some (task_request ''task-3'' ''gallery'' ''T3'' None)) empty_db))) = [1]"
proof -
  let ?d = "task_request ''task-3'' ''gallery'' ''T3'' None"
  have a: "d_study_id ?d = Some ''study-1''" and b: "''study-1'' \<noteq> []"
    and c: "d_type ?d = Some ''gallery''" and d: "''gallery'' \<in> set valid_types"
    and e: "d_title ?d = Some ''T3''" and f: "''T3'' \<noteq> []"
    and g: "d_id ?d \<notin> set (map t_id (tasks db_two_tasks))"
    and g': "d_id ?d \<notin> set (map t_id (tasks empty_db))"
    and h: "d_order_index ?d = None"
    and i: "study_tasks ''study-1'' empty_db = []"
    by (simp_all add: task_request_def valid_types_def db_two_tasks_eval empty_db_def
          study_tasks_def)
  from create_task_default_order_index [OF a b c d e f g h, of "''2025-01-01 10:10:00''"]
  have j: "map t_order_index (tasks (snd (create_task ''2025-01-01 10:10:00'' (Some ?d) db_two_tasks)))
          = [1, 2, 3]"
    by (simp add: db_two_tasks_eval study_tasks_def)
  from create_task_default_order_index [OF a b c d e f g' h, of "''2025-01-01 10:10:00''"] i
  have k: "map t_order_index (tasks (snd (create_task ''2025-01-01 10:10:00'' (Some ?d) empty_db)))
          = [1]"
    by (simp add: empty_db_def)
  from a b c d e f g g' h i j k show ?thesis by blast
qed

text \<open>Claim C9, a defect of the code. The comment in \<open>create_task\<close> reads "Get max
  order_index for this study and add 1", as the claim does. When every index of the
  study is negative the code does not do so: the \<open>+ [0]\<close> that serves the empty list
  enters the maximum. Here the study's only task has \<open>order_index\<close> -5, created with
  that explicit value; the maximum plus 1 is -4, and the task created without an index
  is stored with 1.\<close>

theorem create_task_negative_index:
  "map t_order_index (study_tasks ''study-1'' db_negative) = [- 5]
   \<and> Max (set (map t_order_index (study_tasks ''study-1'' db_negative))) + 1 = - 4
   \<and> map t_order_index (study_tasks ''study-1''
        (snd (create_task ''2025-01-01 10:05:00''
                (Some (task_request ''task-2'' ''discussion'' ''T2'' None)) db_negative)))
       = [- 5, 1]"
  by (simp add: db_negative_eval eval_defs)

subsection \<open>Participant lifecycle\<close>

lemmas participant_defs = participant_request_def status_patch_def db_invited_def db_started_def
  db_completed_def empty_db_def empty_patch_def create_participant_def update_participant_def
  stamp_status_def apply_patch_def db_create_def db_update_def truthy_def find_participant_def
  Let_def

lemma db_started_eval:
  "db_started =
     \<lparr>studies = [], tasks = [],
      participants =
        [\<lparr>p_id = ''participant-1'', p_study_id = ''study-1'', p_contact = ''p1@example.com'',
          p_demographics = None, p_status = ''started'',
          p_invited_at = Some ''2025-01-03 09:00:00'', p_started_at = Some ''2025-01-04 09:00:01'',
          p_completed_at = None, p_created_at = ''2025-01-03 09:00:00'',
          p_updated_at = ''2025-01-04 09:00:00''\<rparr>],
      responses = []\<rparr>"
  by (simp add: participant_defs)

lemma db_completed_eval:
  "db_completed =
     \<lparr>studies = [], tasks = [],
      participants =
        [\<lparr>p_id = ''participant-1'', p_study_id = ''study-1'', p_contact = ''p1@example.com'',
          p_demographics = None, p_status = ''completed'',
          p_invited_at = Some ''2025-01-03 09:00:00'', p_started_at = Some ''2025-01-04 09:00:01'',
          p_completed_at = Some ''2025-01-05 09:00:01'', p_created_at = ''2025-01-03 09:00:00'',
          p_updated_at = ''2025-01-05 09:00:00''\<rparr>],
      responses = []\<rparr>"
  by (simp add: db_completed_def db_started_eval update_participant_def status_patch_def
        empty_patch_def stamp_status_def apply_patch_def db_update_def)

lemma find_map_patch:
  assumes "\<And>r. key (f r) = key r"
  shows "find (\<lambda>r. key r = k) (map (\<lambda>r. if key r = k then f r else r) xs) =
         map_option f (find (\<lambda>r. key r = k) xs)"
  by (induction xs) (simp_all add: assms)

lemma apply_patch_id [simp]: "p_id (apply_patch data p) = p_id p"
  by (simp add: apply_patch_def)

lemma find_participant_id: "find_participant i db = Some p \<Longrightarrow> p_id p = i"
  by (auto simp: find_participant_def find_Some_iff)

lemma update_participant_found:
  assumes "participant_id \<noteq> []" and "find_participant participant_id db = Some p"
    and "data \<noteq> empty_patch"
  shows "update_participant t1 t2 participant_id (Some data) db =
           (Inr (Some participant_id),
            db\<lparr>participants :=
              map (\<lambda>r. if p_id r = participant_id
                       then apply_patch (stamp_status t2 (data\<lparr>u_updated_at := Some t1\<rparr>)) r
                       else r) (participants db)\<rparr>)"
  using assms find_participant_id [OF assms(2)]
  by (simp add: update_participant_def db_update_def find_participant_def)

lemma update_participant_lookup:
  assumes "participant_id \<noteq> []" and "find_participant participant_id db = Some p"
    and "data \<noteq> empty_patch"
  shows "find_participant participant_id
           (snd (update_participant t1 t2 participant_id (Some data) db)) =
         Some (apply_patch (stamp_status t2 (data\<lparr>u_updated_at := Some t1\<rparr>)) p)"
  using assms(2)
  by (simp add: update_participant_found [OF assms] find_participant_def
        find_map_patch [where key = p_id])

lemma update_participant_failure:
  "fst (update_participant t1 t2 participant_id data db) = Inl e \<Longrightarrow>
     snd (update_participant t1 t2 participant_id data db) = db \<and>
     (participant_id = [] \<or> data = None \<or> data = Some empty_patch)"
  by (auto simp: update_participant_def Let_def split: option.splits if_splits prod.splits)

text \<open>Against C4 as stated: a participant whose status is completed is updated to started;
  the call succeeds and the stored status is started.\<close>

theorem update_participant_illegal_counterexample:
  "map_option p_status (find_participant ''participant-1'' db_completed) = Some ''completed''
   \<and> fst (update_participant ''2025-01-06 09:00:00'' ''2025-01-06 09:00:01'' ''participant-1''
            (Some (status_patch ''started'')) db_completed) = Inr (Some ''participant-1'')
   \<and> map_option p_status (find_participant ''participant-1''
        (snd (update_participant ''2025-01-06 09:00:00'' ''2025-01-06 09:00:01'' ''participant-1''
                (Some (status_patch ''started'')) db_completed))) = Some ''started''"
  by (simp add: db_completed_eval update_participant_def status_patch_def
        empty_patch_def stamp_status_def apply_patch_def db_update_def find_participant_def)

text \<open>Claim C4, amended. \<open>update_participant\<close> checks no transition: for a participant that
  exists, a patch with any status succeeds and stores that status, whatever the status
  was. The call fails only for an empty participant id or empty data, and then leaves
  the database, so the stored status, unchanged.\<close>

theorem update_participant_any_status:
  assumes "participant_id \<noteq> []" and "find_participant participant_id db = Some p"
    and "u_status data = Some new_status"
  shows "fst (update_participant t1 t2 participant_id (Some data) db) = Inr (Some participant_id)
       \<and> map_option p_status (find_participant participant_id
            (snd (update_participant t1 t2 participant_id (Some data) db))) = Some new_status
       \<and> (\<forall>e. fst (update_participant t1' t2' participant_id' data' db') = Inl e \<longrightarrow>
              snd (update_participant t1' t2' participant_id' data' db') = db' \<and>
              (participant_id' = [] \<or> data' = None \<or> data' = Some empty_patch))"
proof (intro conjI)
  from assms(3) have ne: "data \<noteq> empty_patch" by (auto simp: empty_patch_def)
  show "fst (update_participant t1 t2 participant_id (Some data) db) = Inr (Some participant_id)"
    by (simp add: update_participant_found [OF assms(1,2) ne])
  have "u_status (stamp_status t2 (data\<lparr>u_updated_at := Some t1\<rparr>)) = Some new_status"
    using assms(3) by (simp add: stamp_status_def)
  then show "map_option p_status (find_participant participant_id
            (snd (update_participant t1 t2 participant_id (Some data) db))) = Some new_status"
    by (simp add: update_participant_lookup [OF assms(1,2) ne] apply_patch_def)
  show "\<forall>e. fst (update_participant t1' t2' participant_id' data' db') = Inl e \<longrightarrow>
              snd (update_participant t1' t2' participant_id' data' db') = db' \<and>
              (participant_id' = [] \<or> data' = None \<or> data' = Some empty_patch)"
    using update_participant_failure by blast
qed

theorem update_participant_any_status_witness:
  "''participant-1'' \<noteq> []
   \<and> find_participant ''participant-1'' db_completed =
       Some \<lparr>p_id = ''participant-1'', p_study_id = ''study-1'', p_contact = ''p1@example.com'',
             p_demographics = None, p_status = ''completed'',
             p_invited_at = Some ''2025-01-03 09:00:00'', p_started_at = Some ''2025-01-04 09:00:01'',
             p_completed_at = Some ''2025-01-05 09:00:01'', p_created_at = ''2025-01-03 09:00:00'',
             p_updated_at = ''2025-01-05 09:00:00''\<rparr>
   \<and> u_status (status_patch ''invited'') = Some ''invited''
   \<and> fst (update_participant ''2025-01-06 09:00:00'' ''2025-01-06 09:00:01'' ''participant-1''
            (Some (status_patch ''invited'')) db_completed) = Inr (Some ''participant-1'')
   \<and> map_option p_status (find_participant ''participant-1''
        (snd (update_participant ''2025-01-06 09:00:00'' ''2025-01-06 09:00:01'' ''participant-1''
                (Some (status_patch ''invited'')) db_completed))) = Some ''invited''
   \<and> fst (update_participant ''2025-01-06 09:00:00'' ''2025-01-06 09:00:01'' ''participant-1''
            (Some empty_patch) db_completed) = Inl (Exception ''Update data is required'')
   \<and> snd (update_participant ''2025-01-06 09:00:00'' ''2025-01-06 09:00:01'' ''participant-1''
            (Some empty_patch) db_completed) = db_completed"
proof -
  have a: "''participant-1'' \<noteq> []" by simp
  have b: "find_participant ''participant-1'' db_completed =
       Some \<lparr>p_id = ''participant-1'', p_study_id = ''study-1'', p_contact = ''p1@example.com'',
             p_demographics = None, p_status = ''completed'',
             p_invited_at = Some ''2025-01-03 09:00:00'', p_started_at = Some ''2025-01-04 09:00:01'',
             p_completed_at = Some ''2025-01-05 09:00:01'', p_created_at = ''2025-01-03 09:00:00'',
             p_updated_at = ''2025-01-05 09:00:00''\<rparr>"
    by (simp add: db_completed_eval find_participant_def)
  have c: "u_status (status_patch ''invited'') = Some ''invited''"
    by (simp add: status_patch_def)
  have d: "fst (update_participant ''2025-01-06 09:00:00'' ''2025-01-06 09:00:01'' ''participant-1''
            (Some empty_patch) db_completed) = Inl (Exception ''Update data is required'')"
    by (simp add: update_participant_def)
  from update_participant_any_status
         [OF a b c, of "''2025-01-06 09:00:00''" "''2025-01-06 09:00:01''"
            "''2025-01-06 09:00:00''" "''2025-01-06 09:00:01''" "''participant-1''"
            "Some empty_patch" db_completed]
    a b c d show ?thesis by blast
qed

lemma create_participant_lookup:
  assumes "fst (create_participant now (Some d) db) = Inr i"
  shows "find_participant i (snd (create_participant now (Some d) db)) =
           Some \<lparr>p_id = pd_id d,
                 p_study_id = (case pd_study_id d of None \<Rightarrow> [] | Some v \<Rightarrow> v),
                 p_contact = (case pd_contact d of None \<Rightarrow> [] | Some v \<Rightarrow> v),
                 p_demographics = pd_demographics d,
                 p_status = (case pd_status d of None \<Rightarrow> ''invited'' | Some s \<Rightarrow> s),
                 p_invited_at = (case pd_invited_at d of None \<Rightarrow> Some now | Some v \<Rightarrow> v),
                 p_started_at = (case pd_started_at d of None \<Rightarrow> None | Some v \<Rightarrow> v),
                 p_completed_at = (case pd_completed_at d of None \<Rightarrow> None | Some v \<Rightarrow> v),
                 p_created_at = now, p_updated_at = now\<rparr>"
proof -
  have fresh: "find (\<lambda>p. p_id p = k) (xs @ [x]) = Some x"
    if "k \<notin> p_id ` set xs" and "p_id x = k" for k x and xs :: "participant list"
    using that by (induction xs) auto
  from assms show ?thesis
    by (auto simp: create_participant_def db_create_def truthy_def find_participant_def
          fresh Let_def
        split: option.splits if_splits)
qed

text \<open>Against C5 as stated: a participant started at 09:00:01 is updated to started again at
  17:30:01 and \<open>started_at\<close> becomes 17:30:01; and a patch that carries \<open>invited_at\<close> as
  null clears the column.\<close>

theorem update_participant_restamp_counterexample:
  "map_option p_started_at (find_participant ''participant-1'' db_started)
     = Some (Some ''2025-01-04 09:00:01'')
   \<and> map_option p_started_at (find_participant ''participant-1''
        (snd (update_participant ''2025-01-04 17:30:00'' ''2025-01-04 17:30:01'' ''participant-1''
                (Some (status_patch ''started'')) db_started)))
     = Some (Some ''2025-01-04 17:30:01'')
   \<and> map_option p_invited_at (find_participant ''participant-1'' db_started)
     = Some (Some ''2025-01-03 09:00:00'')
   \<and> map_option p_invited_at (find_participant ''participant-1''
        (snd (update_participant ''2025-01-04 17:30:00'' ''2025-01-04 17:30:01'' ''participant-1''
                (Some (empty_patch\<lparr>u_invited_at := Some None\<rparr>)) db_started)))
     = Some None"
  by (simp add: db_started_eval update_participant_def status_patch_def
        empty_patch_def stamp_status_def apply_patch_def db_update_def find_participant_def)

text \<open>Claim C5, amended. \<open>invited_at\<close> is written when the participant is created: the
  creation time, unless the request carries its own value. An update of an existing
  participant writes each timestamp the patch names (null clears it); a status update to
  started (completed) whose patch has no \<open>started_at\<close> (\<open>completed_at\<close>) key writes the
  time of the call into that column, replacing any earlier value, so repeating the
  transition stamps it again; a timestamp that is neither named nor stamped keeps its
  value.\<close>

theorem update_participant_timestamps:
  assumes "participant_id \<noteq> []" and "find_participant participant_id db = Some p"
    and "data \<noteq> empty_patch"
  shows "(\<exists>p'. find_participant participant_id
                 (snd (update_participant t1 t2 participant_id (Some data) db)) = Some p' \<and>
               p_invited_at p' =
                 (case u_invited_at data of None \<Rightarrow> p_invited_at p | Some v \<Rightarrow> v) \<and>
               p_started_at p' =
                 (case u_started_at data of
                    Some v \<Rightarrow> v
                  | None \<Rightarrow> if u_status data = Some ''started'' then Some t2 else p_started_at p) \<and>
               p_completed_at p' =
                 (case u_completed_at data of
                    Some v \<Rightarrow> v
                  | None \<Rightarrow>
                      if u_status data = Some ''completed'' then Some t2 else p_completed_at p))
       \<and> (\<forall>i. fst (create_participant now (Some d) db') = Inr i \<longrightarrow>
              map_option p_invited_at (find_participant i (snd (create_participant now (Some d) db')))
                = Some (case pd_invited_at d of None \<Rightarrow> Some now | Some v \<Rightarrow> v))"
proof (intro conjI)
  let ?p' = "apply_patch (stamp_status t2 (data\<lparr>u_updated_at := Some t1\<rparr>)) p"
  have "find_participant participant_id
          (snd (update_participant t1 t2 participant_id (Some data) db)) = Some ?p'"
    by (rule update_participant_lookup [OF assms])
  moreover have "p_invited_at ?p' =
      (case u_invited_at data of None \<Rightarrow> p_invited_at p | Some v \<Rightarrow> v)"
    by (simp add: apply_patch_def stamp_status_def split: option.splits)
  moreover have "p_started_at ?p' =
      (case u_started_at data of
         Some v \<Rightarrow> v
       | None \<Rightarrow> if u_status data = Some ''started'' then Some t2 else p_started_at p)"
    by (simp add: apply_patch_def stamp_status_def split: option.splits)
  moreover have "p_completed_at ?p' =
      (case u_completed_at data of
         Some v \<Rightarrow> v
       | None \<Rightarrow> if u_status data = Some ''completed'' then Some t2 else p_completed_at p)"
    by (simp add: apply_patch_def stamp_status_def split: option.splits)
  ultimately show "\<exists>p'. find_participant participant_id
                 (snd (update_participant t1 t2 participant_id (Some data) db)) = Some p' \<and>
               p_invited_at p' =
                 (case u_invited_at data of None \<Rightarrow> p_invited_at p | Some v \<Rightarrow> v) \<and>
               p_started_at p' =
                 (case u_started_at data of
                    Some v \<Rightarrow> v
                  | None \<Rightarrow> if u_status data = Some ''started'' then Some t2 else p_started_at p) \<and>
               p_completed_at p' =
                 (case u_completed_at data of
                    Some v \<Rightarrow> v
                  | None \<Rightarrow>
                      if u_status data = Some ''completed'' then Some t2 else p_completed_at p)"
    by blast
  show "\<forall>i. fst (create_participant now (Some d) db') = Inr i \<longrightarrow>
              map_option p_invited_at (find_participant i (snd (create_participant now (Some d) db')))
                = Some (case pd_invited_at d of None \<Rightarrow> Some now | Some v \<Rightarrow> v)"
    by (simp add: create_participant_lookup)
qed

theorem update_participant_timestamps_witness:
  "''participant-1'' \<noteq> []
   \<and> map_option p_started_at (find_participant ''participant-1'' db_started)
       = Some (Some ''2025-01-04 09:00:01'')
   \<and> status_patch ''completed'' \<noteq> empty_patch
   \<and> map_option p_started_at (find_participant ''participant-1''
        (snd (update_participant ''2025-01-05 09:00:00'' ''2025-01-05 09:00:01'' ''participant-1''
                (Some (status_patch ''completed'')) db_started)))
       = Some (Some ''2025-01-04 09:00:01'')
   \<and> map_option p_completed_at (find_participant ''participant-1''
        (snd (update_participant ''2025-01-05 09:00:00'' ''2025-01-05 09:00:01'' ''participant-1''
                (Some (status_patch ''completed'')) db_started)))
       = Some (Some ''2025-01-05 09:00:01'')
   \<and> fst (create_participant ''2025-01-03 09:00:00'' (Some participant_request) empty_db)
       = Inr ''participant-1''
   \<and> map_option p_invited_at (find_participant ''participant-1''
        (snd (create_participant ''2025-01-03 09:00:00'' (Some participant_request) empty_db)))
       = Some (Some ''2025-01-03 09:00:00'')"
proof -
  let ?p = "\<lparr>p_id = ''participant-1'', p_study_id = ''study-1'', p_contact = ''p1@example.com'',
          p_demographics = None, p_status = ''started'',
          p_invited_at = Some ''2025-01-03 09:00:00'', p_started_at = Some ''2025-01-04 09:00:01'',
          p_completed_at = None, p_created_at = ''2025-01-03 09:00:00'',
          p_updated_at = ''2025-01-04 09:00:00''\<rparr>"
  have a: "''participant-1'' \<noteq> []" by simp
  have b: "find_participant ''participant-1'' db_started = Some ?p"
    by (simp add: db_started_eval find_participant_def)
  have c: "status_patch ''completed'' \<noteq> empty_patch"
    by (auto simp: status_patch_def empty_patch_def dest: arg_cong [where f = u_status])
  have d: "fst (create_participant ''2025-01-03 09:00:00'' (Some participant_request) empty_db)
       = Inr ''participant-1''"
    by (simp add: participant_request_def empty_db_def create_participant_def db_create_def
          truthy_def)
  note th = update_participant_timestamps
         [OF a b c, of "''2025-01-05 09:00:00''" "''2025-01-05 09:00:01''"
            "''2025-01-03 09:00:00''" participant_request empty_db]
  from th obtain p' where
    "find_participant ''participant-1''
        (snd (update_participant ''2025-01-05 09:00:00'' ''2025-01-05 09:00:01'' ''participant-1''
                (Some (status_patch ''completed'')) db_started)) = Some p'"
    and "p_started_at p' = Some ''2025-01-04 09:00:01''"
    and "p_completed_at p' = Some ''2025-01-05 09:00:01''"
    by (auto simp: status_patch_def empty_patch_def)
  moreover from th d have "map_option p_invited_at (find_participant ''participant-1''
        (snd (create_participant ''2025-01-03 09:00:00'' (Some participant_request) empty_db)))
       = Some (Some ''2025-01-03 09:00:00'')"
    by (simp add: participant_request_def)
  ultimately show ?thesis using a b c d by simp
qed

subsection \<open>AI service\<close>

lemmas ai_defs = example_loads_def steady_client_def steady_service_def
  unconfigured_service_def world0_def no_responses_def init_service_def
  analyze_text_response_def synthesize_study_insights_def synthesize_study_def extract_json_def
  py_strip_def lstrip.simps rstrip.simps space_prefix_def space_suffix_def whitespace_def
  py_get_def Let_def

lemma analyze_text_response_log:
  "anthropic_client self = Some c \<Longrightarrow>
     anthropic_calls (snd (analyze_text_response json_loads self text context w)) =
       anthropic_calls w @ [AnalysisPrompt text context] \<and>
     openai_calls (snd (analyze_text_response json_loads self text context w)) = openai_calls w"
  by (simp add: analyze_text_response_def Let_def split: sum.splits list.splits)

lemma synthesize_study_insights_log:
  "openai_client self = Some c \<Longrightarrow>
     openai_calls (snd (synthesize_study_insights json_loads self study_data w)) =
       openai_calls w @ [SynthesisPrompt study_data] \<and>
     anthropic_calls (snd (synthesize_study_insights json_loads self study_data w)) =
       anthropic_calls w"
  by (simp add: synthesize_study_insights_def Let_def split: sum.splits list.splits)

lemma synthesize_study_insights_unconfigured:
  "openai_client self = None \<Longrightarrow>
     synthesize_study_insights json_loads self study_data w =
       (Inl (ValueError ''OpenAI API key not configured''), w)"
  by (simp add: synthesize_study_insights_def)

lemma extract_json_fenced:
  "map_sum id py_strip
     (extract_json (''Here you go: ```json'' @ [CHR 0x0A] @ ''{}'' @ [CHR 0x0A] @ ''``` Done.''))
   = Inr ''{}''"
  by (simp add: extract_json_def fenced_def py_split_def py_strip_def lstrip.simps rstrip.simps
        space_prefix_def space_suffix_def whitespace_def)

lemma py_strip_unicode:
  "py_strip ([CHR 0xC2, CHR 0xA0, CHR 0x20] @ ''{ }'' @ [CHR 0xE2, CHR 0x80, CHR 0xA8, CHR 0x0A])
   = ''{ }''"
  by (simp add: py_strip_def lstrip.simps rstrip.simps space_prefix_def space_suffix_def
        whitespace_def)

text \<open>Against C6 as stated: two calls with the same text, the second on the world the first
  left, each send a request; the service has received two.\<close>

theorem analyze_text_response_twice_counterexample:
  "analyze_text_response example_loads steady_service ''I love this product!'' None world0
     = (Inr (JObj []), world0\<lparr>anthropic_calls := [AnalysisPrompt ''I love this product!'' None]\<rparr>)
   \<and> analyze_text_response example_loads steady_service ''I love this product!'' None
       (world0\<lparr>anthropic_calls := [AnalysisPrompt ''I love this product!'' None]\<rparr>)
     = (Inr (JObj []),
        world0\<lparr>anthropic_calls := [AnalysisPrompt ''I love this product!'' None,
                                    AnalysisPrompt ''I love this product!'' None]\<rparr>)
   \<and> length [AnalysisPrompt ''I love this product!'' None,
              AnalysisPrompt ''I love this product!'' None] = 2"
  by (simp add: ai_defs)

text \<open>Claim C6, amended. \<open>analyze_text_response\<close> keeps no cache: with an Anthropic client
  configured every call sends exactly one request to the external service, whatever the
  reply, so two calls with byte-identical input send two requests.\<close>

theorem analyze_text_response_calls:
  assumes "anthropic_client self = Some c"
  shows "anthropic_calls (snd (analyze_text_response json_loads self text context w)) =
           anthropic_calls w @ [AnalysisPrompt text context]
       \<and> anthropic_calls
           (snd (analyze_text_response json_loads self text context
                   (snd (analyze_text_response json_loads self text context w)))) =
           anthropic_calls w @ [AnalysisPrompt text context, AnalysisPrompt text context]"
  using analyze_text_response_log [OF assms] by simp

theorem analyze_text_response_calls_witness:
  "anthropic_client steady_service = Some steady_client
   \<and> length (anthropic_calls
       (snd (analyze_text_response example_loads steady_service ''I love this product!'' None
          (snd (analyze_text_response example_loads steady_service ''I love this product!'' None
                  world0))))) = 2"
proof -
  have a: "anthropic_client steady_service = Some steady_client"
    by (simp add: steady_service_def init_service_def)
  from analyze_text_response_calls [OF a, of example_loads "''I love this product!''" None world0]
    a show ?thesis by (simp add: world0_def)
qed

text \<open>Against C7 as stated: study data with no participants and no responses is sent to the
  external service, by the route and by the service function, and the reply is
  returned.\<close>

theorem synthesize_no_responses_counterexample:
  "py_get [(''study_data'', no_responses)] ''study_data'' = Some no_responses
   \<and> synthesize_study example_loads steady_service [(''study_data'', no_responses)] world0
     = (Inr (JObj []), world0\<lparr>openai_calls := [SynthesisPrompt no_responses]\<rparr>)
   \<and> synthesize_study_insights example_loads steady_service no_responses world0
     = (Inr (JObj []), world0\<lparr>openai_calls := [SynthesisPrompt no_responses]\<rparr>)"
  by (simp add: ai_defs)

text \<open>Claim C7, amended. \<open>synthesize_study_insights\<close> never inspects the study data: with an
  OpenAI client configured it sends exactly one request for every study data, also one
  with no responses. No request is sent only when no OpenAI key is configured
  (\<open>ValueError\<close>) or when the route finds \<open>study_data\<close> missing or empty ("Study data is
  required"); any other payload reaches the service function unchanged.\<close>

theorem synthesize_study_insights_calls:
  "(openai_client self = Some c \<longrightarrow>
      openai_calls (snd (synthesize_study_insights json_loads self study_data w)) =
        openai_calls w @ [SynthesisPrompt study_data])
   \<and> (openai_client self = None \<longrightarrow>
      synthesize_study_insights json_loads self study_data w =
        (Inl (ValueError ''OpenAI API key not configured''), w))
   \<and> (\<not> json_truthy (py_get payload ''study_data'') \<longrightarrow>
      synthesize_study json_loads self payload w = (Inl (Exception ''Study data is required''), w))
   \<and> (json_truthy (py_get payload ''study_data'') \<and> py_get payload ''study_data'' = Some study_data \<longrightarrow>
      synthesize_study json_loads self payload w =
        synthesize_study_insights json_loads self study_data w)"
  by (auto simp: synthesize_study_insights_log synthesize_study_insights_unconfigured
        synthesize_study_def split: option.splits)

theorem synthesize_study_insights_calls_witness:
  "openai_client steady_service = Some steady_client
   \<and> openai_calls (snd (synthesize_study_insights example_loads steady_service no_responses world0))
       = [SynthesisPrompt no_responses]
   \<and> openai_client unconfigured_service = None
   \<and> synthesize_study_insights example_loads unconfigured_service no_responses world0
       = (Inl (ValueError ''OpenAI API key not configured''), world0)
   \<and> \<not> json_truthy (py_get [(''study_data'', JObj [])] ''study_data'')
   \<and> synthesize_study example_loads steady_service [(''study_data'', JObj [])] world0
       = (Inl (Exception ''Study data is required''), world0)
   \<and> json_truthy (py_get [(''study_data'', no_responses)] ''study_data'')
   \<and> py_get [(''study_data'', no_responses)] ''study_data'' = Some no_responses
   \<and> synthesize_study example_loads steady_service [(''study_data'', no_responses)] world0
       = synthesize_study_insights example_loads steady_service no_responses world0"
proof -
  have a: "openai_client steady_service = Some steady_client"
    by (simp add: steady_service_def init_service_def)
  have b: "openai_client unconfigured_service = None"
    by (simp add: unconfigured_service_def init_service_def)
  have c: "\<not> json_truthy (py_get [(''study_data'', JObj [])] ''study_data'')"
    by (simp add: py_get_def)
  have g: "json_truthy (py_get [(''study_data'', no_responses)] ''study_data'')"
    and h: "py_get [(''study_data'', no_responses)] ''study_data'' = Some no_responses"
    by (simp_all add: py_get_def no_responses_def)
  from synthesize_study_insights_calls
         [of steady_service steady_client example_loads no_responses world0
             "[(''study_data'', JObj [])]"] a c
  have d: "openai_calls (snd (synthesize_study_insights example_loads steady_service no_responses world0))
       = [SynthesisPrompt no_responses]"
    and e: "synthesize_study example_loads steady_service [(''study_data'', JObj [])] world0
       = (Inl (Exception ''Study data is required''), world0)"
    by (simp_all add: world0_def)
  from synthesize_study_insights_calls
         [of unconfigured_service steady_client example_loads no_responses world0 "[]"] b
  have f: "synthesize_study_insights example_loads unconfigured_service no_responses world0
       = (Inl (ValueError ''OpenAI API key not configured''), world0)"
    by simp
  from synthesize_study_insights_calls
         [of steady_service steady_client example_loads no_responses world0
             "[(''study_data'', no_responses)]"] g h
  have i: "synthesize_study example_loads steady_service [(''study_data'', no_responses)] world0
       = synthesize_study_insights example_loads steady_service no_responses world0"
    by blast
  from a b c d e f g h i show ?thesis by blast
qed

subsection \<open>Response store\<close>

lemma same_pair_pair_of: "same_pair P T r = (pair_of r = (P, T))"
  by (auto simp: same_pair_def pair_of_def)

lemma find_None_filter: "find Q xs = None \<Longrightarrow> filter Q xs = []"
  by (induction xs) (auto split: if_splits)

lemma find_append_new: "find Q xs = None \<Longrightarrow> Q x \<Longrightarrow> find Q (xs @ [x]) = Some x"
  by (induction xs) (auto split: if_splits)

lemma filter_single_find: "filter Q xs = [r] \<Longrightarrow> find Q xs = Some r"
  by (induction xs) (auto split: if_splits)

lemma distinct_pairs_filter:
  "distinct (map pair_of xs) \<Longrightarrow> find (same_pair P T) xs = Some r \<Longrightarrow>
     filter (same_pair P T) xs = [r]"
proof (induction xs)
  case Nil
  then show ?case by simp
next
  case (Cons x xs)
  show ?case
  proof (cases "same_pair P T x")
    case True
    with Cons.prems have r: "x = r" and notin: "pair_of x \<notin> pair_of ` set xs" by simp_all
    have "\<forall>y\<in>set xs. \<not> same_pair P T y"
    proof (intro ballI notI)
      fix y assume y: "y \<in> set xs" and sp: "same_pair P T y"
      from y have "pair_of y \<in> pair_of ` set xs" by (rule imageI)
      moreover from sp have "pair_of y = (P, T)" by (simp add: same_pair_pair_of)
      moreover from True have "pair_of x = (P, T)" by (simp add: same_pair_pair_of)
      ultimately show False using notin by metis
    qed
    then have "filter (same_pair P T) xs = []" by (simp add: filter_empty_conv)
    with True r show ?thesis by simp
  next
    case False
    with Cons show ?thesis by simp
  qed
qed

lemma filter_map_replace:
  assumes "\<And>r. Q (f r) = Q r"
  shows "filter Q (map (\<lambda>r. if Q r then f r else r) xs) = map f (filter Q xs)"
  by (induction xs) (simp_all add: assms)

lemma map_pair_of_replace:
  "map pair_of (map (\<lambda>r. if Q r then r\<lparr>r_response_data := v, r_submitted_at := s\<rparr> else r) xs) =
   map pair_of xs"
  by (induction xs) (simp_all add: pair_of_def)

lemma list_responses_pair:
  "list_responses (pair_filter P T) db = filter (same_pair P T) (responses db)"
proof -
  have "response_matches db (pair_filter P T) = same_pair P T"
    by (auto simp: response_matches_def pair_filter_def same_pair_def fun_eq_iff)
  then show ?thesis by (simp add: list_responses_def)
qed

lemma submit_effect:
  assumes inv: "distinct (map pair_of (responses db))"
    and ok: "submit valid now new_id P T payload db = (Inr rid, db')"
  shows "\<exists>r. filter (same_pair P T) (responses db') = [r] \<and> r_response_data r = payload \<and>
             r_id r = rid \<and> find (same_pair P T) (responses db') = Some r"
    and "distinct (map pair_of (responses db'))"
proof -
  let ?upd = "\<lambda>r. r\<lparr>r_response_data := payload, r_submitted_at := Some now\<rparr>"
  let ?new = "\<lparr>r_id = new_id, r_participant_id = P, r_task_id = T, r_response_data = payload,
               r_submitted_at = Some now, r_created_at = Some now\<rparr>"
  have both: "(\<exists>r. filter (same_pair P T) (responses db') = [r] \<and> r_response_data r = payload \<and>
             r_id r = rid \<and> find (same_pair P T) (responses db') = Some r) \<and>
        distinct (map pair_of (responses db'))"
  proof (cases "find (same_pair P T) (responses db)")
    case None
    with ok have rid: "rid = new_id" and db': "responses db' = responses db @ [?new]"
      by (auto simp: submit_def split: option.splits if_splits)
    from None have empty: "filter (same_pair P T) (responses db) = []" by (rule find_None_filter)
    then have "\<forall>y\<in>set (responses db). \<not> same_pair P T y" by (simp add: filter_empty_conv)
    then have fresh: "(P, T) \<notin> pair_of ` set (responses db)" by (auto simp: same_pair_pair_of)
    have sp: "same_pair P T ?new" by (simp add: same_pair_def)
    have "find (same_pair P T) (responses db @ [?new]) = Some ?new"
      using None sp by (rule find_append_new)
    with empty sp rid db' inv fresh show ?thesis by (simp add: pair_of_def)
  next
    case (Some r0)
    with ok have rid: "rid = r_id r0"
      and db': "responses db' = map (\<lambda>r. if same_pair P T r then ?upd r else r) (responses db)"
      by (auto simp: submit_def split: option.splits if_splits)
    have keep: "\<And>r. same_pair P T (?upd r) = same_pair P T r" by (simp add: same_pair_def)
    from distinct_pairs_filter [OF inv Some]
    have "filter (same_pair P T) (responses db') = [?upd r0]"
      by (simp add: db' filter_map_replace [of "same_pair P T" ?upd, OF keep])
    moreover from this have "find (same_pair P T) (responses db') = Some (?upd r0)"
      by (rule filter_single_find)
    moreover have "distinct (map pair_of (responses db'))"
      unfolding db' map_pair_of_replace by (rule inv)
    ultimately show ?thesis using rid by simp
  qed
  from both show "\<exists>r. filter (same_pair P T) (responses db') = [r] \<and> r_response_data r = payload \<and>
             r_id r = rid \<and> find (same_pair P T) (responses db') = Some r" by blast
  from both show "distinct (map pair_of (responses db'))" by blast
qed

lemma submit_existing:
  assumes "find (same_pair P T) (responses db) = Some r"
    and "submit valid now new_id P T payload db = (Inr rid, db')"
  shows "rid = r_id r"
  using assms by (auto simp: submit_def split: option.splits if_splits)

lemma db_active_eval:
  "db_active =
     \<lparr>studies = [\<lparr>s_id = ''study-1'', s_status = ''active''\<rparr>],
      tasks =
        [\<lparr>t_id = ''task-1'', t_study_id = ''study-1'', t_type = ''camera'', t_title = ''T1'',
          t_instructions = None, t_order_index = 1, t_created_at = ''2025-01-01 10:00:00'',
          t_updated_at = ''2025-01-01 10:00:00''\<rparr>,
         \<lparr>t_id = ''task-2'', t_study_id = ''study-1'', t_type = ''discussion'', t_title = ''T2'',
          t_instructions = None, t_order_index = 2, t_created_at = ''2025-01-01 10:05:00'',
          t_updated_at = ''2025-01-01 10:05:00''\<rparr>],
      participants =
        [\<lparr>p_id = ''participant-1'', p_study_id = ''study-1'', p_contact = ''p1@example.com'',
          p_demographics = None, p_status = ''invited'',
          p_invited_at = Some ''2025-01-03 09:00:00'', p_started_at = None,
          p_completed_at = None, p_created_at = ''2025-01-03 09:00:00'',
          p_updated_at = ''2025-01-03 09:00:00''\<rparr>],
      responses = []\<rparr>"
  by (simp add: db_active_def db_two_tasks_eval participant_request_def create_participant_def
        db_create_def truthy_def)

text \<open>Claim C3. In a store with at most one response per (participant, task) pair, after two
  successful submissions for the same pair, listing by that pair returns exactly one
  response; it carries the later payload and the id both submissions answered, and the
  store still has at most one response per pair.\<close>

theorem submit_twice:
  assumes "distinct (map pair_of (responses db))"
    and "submit valid now1 id1 P T payload1 db = (Inr rid1, db1)"
    and "submit valid now2 id2 P T payload2 db1 = (Inr rid2, db2)"
  shows "(\<exists>r. list_responses (pair_filter P T) db2 = [r] \<and> r_response_data r = payload2 \<and>
              r_id r = rid2 \<and> rid2 = rid1)
       \<and> length (filter (same_pair P T) (responses db2)) = 1
       \<and> distinct (map pair_of (responses db2))"
proof -
  from submit_effect [OF assms(1,2)] obtain r1 where
    r1: "find (same_pair P T) (responses db1) = Some r1" "r_id r1 = rid1"
    and d1: "distinct (map pair_of (responses db1))" by blast
  from submit_effect [OF d1 assms(3)] obtain r2 where
    r2: "filter (same_pair P T) (responses db2) = [r2]" "r_response_data r2 = payload2"
      "r_id r2 = rid2"
    and d2: "distinct (map pair_of (responses db2))" by blast
  from submit_existing [OF r1(1) assms(3)] r1(2) have "rid2 = rid1" by simp
  with r2 d2 show ?thesis by (simp add: list_responses_pair)
qed

theorem submit_twice_witness:
  "distinct (map pair_of (responses db_active))
   \<and> fst (submit example_shape ''2025-01-04 09:00:00'' ''response-1'' ''participant-1'' ''task-2''
            (JObj [(''text'', JStr ''I love this product!'')]) db_active) = Inr ''response-1''
   \<and> fst (submit example_shape ''2025-01-04 09:30:00'' ''response-2'' ''participant-1'' ''task-2''
            (JObj [(''text'', JStr ''On reflection, it is fine.'')])
            (snd (submit example_shape ''2025-01-04 09:00:00'' ''response-1'' ''participant-1''
                    ''task-2'' (JObj [(''text'', JStr ''I love this product!'')]) db_active)))
       = Inr ''response-1''
   \<and> length (filter (same_pair ''participant-1'' ''task-2'')
        (responses (snd (submit example_shape ''2025-01-04 09:30:00'' ''response-2''
            ''participant-1'' ''task-2'' (JObj [(''text'', JStr ''On reflection, it is fine.'')])
            (snd (submit example_shape ''2025-01-04 09:00:00'' ''response-1'' ''participant-1''
                    ''task-2'' (JObj [(''text'', JStr ''I love this product!'')]) db_active)))))) = 1
   \<and> map r_response_data (list_responses (pair_filter ''participant-1'' ''task-2'')
        (snd (submit example_shape ''2025-01-04 09:30:00'' ''response-2'' ''participant-1'' ''task-2''
            (JObj [(''text'', JStr ''On reflection, it is fine.'')])
            (snd (submit example_shape ''2025-01-04 09:00:00'' ''response-1'' ''participant-1''
                    ''task-2'' (JObj [(''text'', JStr ''I love this product!'')]) db_active)))))
       = [JObj [(''text'', JStr ''On reflection, it is fine.'')]]"
proof -
  let ?db1 = "db_active\<lparr>responses :=
        [\<lparr>r_id = ''response-1'', r_participant_id = ''participant-1'', r_task_id = ''task-2'',
          r_response_data = JObj [(''text'', JStr ''I love this product!'')],
          r_submitted_at = Some ''2025-01-04 09:00:00'',
          r_created_at = Some ''2025-01-04 09:00:00''\<rparr>]\<rparr>"
  let ?db2 = "db_active\<lparr>responses :=
        [\<lparr>r_id = ''response-1'', r_participant_id = ''participant-1'', r_task_id = ''task-2'',
          r_response_data = JObj [(''text'', JStr ''On reflection, it is fine.'')],
          r_submitted_at = Some ''2025-01-04 09:30:00'',
          r_created_at = Some ''2025-01-04 09:00:00''\<rparr>]\<rparr>"
  have a: "distinct (map pair_of (responses db_active))" by (simp add: db_active_eval)
  have b: "submit example_shape ''2025-01-04 09:00:00'' ''response-1'' ''participant-1'' ''task-2''
            (JObj [(''text'', JStr ''I love this product!'')]) db_active = (Inr ''response-1'', ?db1)"
    by (simp add: db_active_eval submit_def example_shape_def same_pair_def)
  have c: "submit example_shape ''2025-01-04 09:30:00'' ''response-2'' ''participant-1'' ''task-2''
            (JObj [(''text'', JStr ''On reflection, it is fine.'')]) ?db1 = (Inr ''response-1'', ?db2)"
    by (simp add: db_active_eval submit_def example_shape_def same_pair_def)
  from submit_twice [OF a b c]
  have d: "length (filter (same_pair ''participant-1'' ''task-2'') (responses ?db2)) = 1"
    by blast
  have e: "map r_response_data (list_responses (pair_filter ''participant-1'' ''task-2'') ?db2)
       = [JObj [(''text'', JStr ''On reflection, it is fine.'')]]"
    by (simp add: list_responses_pair same_pair_def)
  from a d e show ?thesis unfolding b c fst_conv snd_conv by blast
qed

end
